theory Spec2Isabelle
  imports Complex_Main
begin

section \<open>Python values, rows and the row store\<close>

text \<open>
  A row is a Python \<^verbatim>\<open>dict\<close> from column names to values. The data model makes every
  column an optional, nullable string, so a value is \<^verbatim>\<open>None\<close> or a \<^verbatim>\<open>str\<close>; the engine
  itself stores an \<^verbatim>\<open>int\<close> under \<^verbatim>\<open>days_held\<close>. A \<^verbatim>\<open>str\<close> is the list of its Unicode code
  points. Column names are the ASCII literals of the source. Rows are objects shared between
  the caller's list and the lists of the report, so they live in a store and lists hold
  addresses.
\<close>

type_synonym ustr = "nat list"

text \<open>The code point of an ASCII character and the \<^verbatim>\<open>str\<close> of an ASCII literal.\<close>

definition ch :: "char \<Rightarrow> nat" where
  "ch c = of_char c"

definition u :: "string \<Rightarrow> ustr" where
  "u s = map ch s"

datatype pyval = PyNone | PyStr ustr | PyInt int

type_synonym row = "string \<rightharpoonup> pyval"
type_synonym addr = nat
type_synonym heap = "addr \<Rightarrow> row"

datatype py_error = AttributeError

text \<open>
  A \<^verbatim>\<open>float\<close> is a finite value, an infinity or NaN. The two zeros are one value here:
  the engine only adds, subtracts, multiplies, divides and compares, and none of these
  tells them apart. A number of the report is an \<^verbatim>\<open>int\<close> or a \<^verbatim>\<open>float\<close>.
\<close>

datatype pyfloat = Fin rat | PInf | NInf | NaN

datatype number = NInt int | NFloat pyfloat

text \<open>
  What the engine takes from the Python runtime, and this development does not fix:

    \<^item> \<open>str_lower\<close>: \<^verbatim>\<open>str.lower\<close> on a text with a character outside ASCII;
    \<^item> \<open>digit_value\<close>: the decimal digit a character outside ASCII stands for, if it is one
      (what \<^verbatim>\<open>\d\<close> matches and \<^verbatim>\<open>int\<close> reads);
    \<^item> \<open>float_of_str\<close>, \<open>float_of_int\<close>: the builtin \<^verbatim>\<open>float\<close>, \<open>None\<close> where it raises
      (\<^verbatim>\<open>ValueError\<close> on a \<^verbatim>\<open>str\<close>, \<^verbatim>\<open>OverflowError\<close> on an \<^verbatim>\<open>int\<close>);
    \<^item> \<open>f_add\<close>, \<open>f_sub\<close>, \<open>f_mul\<close>, \<open>f_div\<close>: the rounded operations on floats
      (\<open>f_div\<close> for a divisor other than zero);
    \<^item> \<open>f_sum\<close>: the builtin \<^verbatim>\<open>sum\<close> on a non-empty sequence of floats;
    \<^item> \<open>int_div\<close>: the true division \<^verbatim>\<open>/\<close> of two ints, the divisor not zero.
\<close>

record runtime =
  str_lower :: "ustr \<Rightarrow> ustr"
  digit_value :: "nat \<Rightarrow> int option"
  float_of_str :: "ustr \<Rightarrow> pyfloat option"
  float_of_int :: "int \<Rightarrow> pyfloat option"
  f_add :: "pyfloat \<Rightarrow> pyfloat \<Rightarrow> pyfloat"
  f_sub :: "pyfloat \<Rightarrow> pyfloat \<Rightarrow> pyfloat"
  f_mul :: "pyfloat \<Rightarrow> pyfloat \<Rightarrow> pyfloat"
  f_div :: "pyfloat \<Rightarrow> pyfloat \<Rightarrow> pyfloat"
  f_sum :: "pyfloat list \<Rightarrow> pyfloat"
  int_div :: "int \<Rightarrow> int \<Rightarrow> pyfloat"

text \<open>\<^verbatim>\<open>r.get(k)\<close> and \<^verbatim>\<open>r.get(k, d)\<close>.\<close>

definition get :: "row \<Rightarrow> string \<Rightarrow> pyval" where
  "get r k = (case r k of None \<Rightarrow> PyNone | Some v \<Rightarrow> v)"

definition get_default :: "row \<Rightarrow> string \<Rightarrow> pyval \<Rightarrow> pyval" where
  "get_default r k d = (case r k of None \<Rightarrow> d | Some v \<Rightarrow> v)"

text \<open>Truthiness of a value (\<^verbatim>\<open>if value\<close>, \<^verbatim>\<open>not date_str\<close>).\<close>

fun truthy :: "pyval \<Rightarrow> bool" where
  "truthy PyNone = False"
| "truthy (PyStr s) = (s \<noteq> [])"
| "truthy (PyInt n) = (n \<noteq> 0)"

subsection \<open>String operations\<close>

definition is_ascii :: "ustr \<Rightarrow> bool" where
  "is_ascii s = list_all (\<lambda>c. c < 128) s"

text \<open>On ASCII, \<^verbatim>\<open>str.lower\<close> maps \<^verbatim>\<open>A\<close>..\<^verbatim>\<open>Z\<close> to \<^verbatim>\<open>a\<close>..\<^verbatim>\<open>z\<close> and keeps every other character.\<close>

definition lower_ascii :: "nat \<Rightarrow> nat" where
  "lower_ascii c = (if 65 \<le> c \<and> c \<le> 90 then c + 32 else c)"

definition lower :: "runtime \<Rightarrow> ustr \<Rightarrow> ustr" where
  "lower rt s = (if is_ascii s then map lower_ascii s else str_lower rt s)"

definition startswith :: "ustr \<Rightarrow> ustr \<Rightarrow> bool" where
  "startswith s p = (take (length p) s = p)"

text \<open>\<^verbatim>\<open>x in s\<close> on strings is \<open>contains s x\<close>.\<close>

fun contains :: "ustr \<Rightarrow> ustr \<Rightarrow> bool" where
  "contains [] x = (x = [])"
| "contains (c # cs) x = (startswith (c # cs) x \<or> contains cs x)"

text \<open>\<^verbatim>\<open>any(x in loc for x in tags)\<close>.\<close>

definition contains_any :: "ustr \<Rightarrow> ustr list \<Rightarrow> bool" where
  "contains_any loc tags = list_ex (contains loc) tags"

text \<open>The decimal digits: \<^verbatim>\<open>0\<close>..\<^verbatim>\<open>9\<close> in ASCII, and what the runtime knows beyond.\<close>

definition digit_of :: "runtime \<Rightarrow> nat \<Rightarrow> int option" where
  "digit_of rt c =
     (if c < 128 then (if 48 \<le> c \<and> c \<le> 57 then Some (int c - 48) else None)
      else digit_value rt c)"

definition digit_val :: "runtime \<Rightarrow> nat \<Rightarrow> int" where
  "digit_val rt c = (case digit_of rt c of None \<Rightarrow> 0 | Some n \<Rightarrow> n)"

text \<open>A character in the ASCII range from \<open>lo\<close> to \<open>hi\<close>, as in \<^verbatim>\<open>[1-9]\<close>.\<close>

definition between :: "char \<Rightarrow> char \<Rightarrow> nat \<Rightarrow> bool" where
  "between lo hi c = (ch lo \<le> c \<and> c \<le> ch hi)"

fun nat_digits :: "nat \<Rightarrow> ustr" where
  "nat_digits n =
     (if n < 10 then [48 + n] else nat_digits (n div 10) @ [48 + n mod 10])"

declare nat_digits.simps [simp del]

text \<open>\<^verbatim>\<open>str(v)\<close>.\<close>

fun py_str :: "pyval \<Rightarrow> ustr" where
  "py_str PyNone = u ''None''"
| "py_str (PyStr s) = s"
| "py_str (PyInt n) = (if n < 0 then ch CHR ''-'' # nat_digits (nat (- n)) else nat_digits (nat n))"

text \<open>\<^verbatim>\<open>v.lower()\<close>: only a \<^verbatim>\<open>str\<close> has the method.\<close>

fun lower_method :: "runtime \<Rightarrow> pyval \<Rightarrow> py_error + ustr" where
  "lower_method rt (PyStr s) = Inr (lower rt s)"
| "lower_method rt PyNone = Inl AttributeError"
| "lower_method rt (PyInt n) = Inl AttributeError"

subsection \<open>Dates\<close>

text \<open>
  A \<^verbatim>\<open>datetime\<close> is a calendar date and the microsecond of the day. Dates compare as
  (year, month, day) triples; the difference of two datetimes is a \<^verbatim>\<open>timedelta\<close>, whose
  \<^verbatim>\<open>days\<close> is the floor of the difference in days. The ordinal of a date is computed as
  the standard library does.
\<close>

record date =
  d_year :: int
  d_month :: int
  d_day :: int

record datetime =
  dt_date :: date
  dt_us :: int

definition is_leap :: "int \<Rightarrow> bool" where
  "is_leap y = (y mod 4 = 0 \<and> (y mod 100 \<noteq> 0 \<or> y mod 400 = 0))"

definition days_before_year :: "int \<Rightarrow> int" where
  "days_before_year year =
     (let y = year - 1 in y * 365 + y div 4 - y div 100 + y div 400)"

definition days_in_month :: "int \<Rightarrow> int \<Rightarrow> int" where
  "days_in_month year month =
     (if month = 2 \<and> is_leap year then 29
      else [31, 28, 31, 30, 31, 30, 31, 31, 30, 31, 30, 31] ! nat (month - 1))"

definition days_before_month :: "int \<Rightarrow> int \<Rightarrow> int" where
  "days_before_month year month =
     [0, 31, 59, 90, 120, 151, 181, 212, 243, 273, 304, 334] ! nat (month - 1)
       + (if month > 2 \<and> is_leap year then 1 else 0)"

definition toordinal :: "date \<Rightarrow> int" where
  "toordinal d = days_before_year (d_year d) + days_before_month (d_year d) (d_month d) + d_day d"

definition valid_date :: "date \<Rightarrow> bool" where
  "valid_date d =
     (1 \<le> d_year d \<and> d_year d \<le> 9999 \<and> 1 \<le> d_month d \<and> d_month d \<le> 12 \<and>
      1 \<le> d_day d \<and> d_day d \<le> days_in_month (d_year d) (d_month d))"

definition valid_datetime :: "datetime \<Rightarrow> bool" where
  "valid_datetime t = (valid_date (dt_date t) \<and> 0 \<le> dt_us t \<and> dt_us t < 86400000000)"

definition date_le :: "date \<Rightarrow> date \<Rightarrow> bool" where
  "date_le a b =
     (d_year a < d_year b \<or>
      (d_year a = d_year b \<and>
        (d_month a < d_month b \<or> (d_month a = d_month b \<and> d_day a \<le> d_day b))))"

text \<open>\<^verbatim>\<open>(a - b).days\<close>.\<close>

definition sub_days :: "datetime \<Rightarrow> datetime \<Rightarrow> int" where
  "sub_days a b =
     ((toordinal (dt_date a) - toordinal (dt_date b)) * 86400000000 + (dt_us a - dt_us b))
        div 86400000000"

subsection \<open>\<^verbatim>\<open>datetime.strptime(s, '%Y-%m-%d')\<close>\<close>

text \<open>
  The format is matched as the regular expression
  \<^verbatim>\<open>(\d\d\d\d)-(1[0-2]|0[1-9]|[1-9])-(3[0-1]|[1-2]\d|0[1-9]|[1-9]| [1-9])\<close>,
  the whole string must be consumed, and the date must exist. Any failure is a
  \<^verbatim>\<open>ValueError\<close>, here \<open>None\<close>.
\<close>

fun re_year :: "runtime \<Rightarrow> ustr \<Rightarrow> (int \<times> ustr) option" where
  "re_year rt (a # b # c # d # rest) =
     (if digit_of rt a \<noteq> None \<and> digit_of rt b \<noteq> None \<and> digit_of rt c \<noteq> None
         \<and> digit_of rt d \<noteq> None
      then Some (1000 * digit_val rt a + 100 * digit_val rt b + 10 * digit_val rt c
                   + digit_val rt d, rest)
      else None)"
| "re_year rt _ = None"

fun re_month :: "runtime \<Rightarrow> ustr \<Rightarrow> (int \<times> ustr) option" where
  "re_month rt (a # b # rest) =
     (if a = ch CHR ''1'' \<and> between CHR ''0'' CHR ''2'' b then Some (10 + digit_val rt b, rest)
      else if a = ch CHR ''0'' \<and> between CHR ''1'' CHR ''9'' b then Some (digit_val rt b, rest)
      else if between CHR ''1'' CHR ''9'' a then Some (digit_val rt a, b # rest)
      else None)"
| "re_month rt [a] = (if between CHR ''1'' CHR ''9'' a then Some (digit_val rt a, []) else None)"
| "re_month rt [] = None"

fun re_day :: "runtime \<Rightarrow> ustr \<Rightarrow> (int \<times> ustr) option" where
  "re_day rt (a # b # rest) =
     (if a = ch CHR ''3'' \<and> between CHR ''0'' CHR ''1'' b then Some (30 + digit_val rt b, rest)
      else if between CHR ''1'' CHR ''2'' a \<and> digit_of rt b \<noteq> None
        then Some (10 * digit_val rt a + digit_val rt b, rest)
      else if a = ch CHR ''0'' \<and> between CHR ''1'' CHR ''9'' b then Some (digit_val rt b, rest)
      else if between CHR ''1'' CHR ''9'' a then Some (digit_val rt a, b # rest)
      else if a = ch CHR '' '' \<and> between CHR ''1'' CHR ''9'' b then Some (digit_val rt b, rest)
      else None)"
| "re_day rt [a] = (if between CHR ''1'' CHR ''9'' a then Some (digit_val rt a, []) else None)"
| "re_day rt [] = None"

text \<open>The literal \<^verbatim>\<open>-\<close> of the format.\<close>

definition re_dash :: "ustr \<Rightarrow> ustr option" where
  "re_dash s = (case s of [] \<Rightarrow> None | c # cs \<Rightarrow> if c = ch CHR ''-'' then Some cs else None)"

definition strptime_ymd :: "runtime \<Rightarrow> ustr \<Rightarrow> datetime option" where
  "strptime_ymd rt s =
     (case re_year rt s of
        None \<Rightarrow> None
      | Some (y, s1) \<Rightarrow>
     (case re_dash s1 of
        None \<Rightarrow> None
      | Some s2 \<Rightarrow>
     (case re_month rt s2 of
        None \<Rightarrow> None
      | Some (m, s3) \<Rightarrow>
     (case re_dash s3 of
        None \<Rightarrow> None
      | Some s4 \<Rightarrow>
     (case re_day rt s4 of
        None \<Rightarrow> None
      | Some (d, rest) \<Rightarrow>
          (let dd = \<lparr>d_year = y, d_month = m, d_day = d\<rparr>
           in if rest = [] \<and> valid_date dd then Some \<lparr>dt_date = dd, dt_us = 0\<rparr>
              else None))))))"

subsection \<open>The helpers of \<^verbatim>\<open>utils.py\<close>\<close>

definition parse_date :: "runtime \<Rightarrow> pyval \<Rightarrow> datetime option" where
  "parse_date rt date_str =
     (if \<not> truthy date_str \<or> startswith (py_str date_str) (u ''0001'') then None
      else strptime_ymd rt (takeWhile (\<lambda>c. c \<noteq> ch CHR ''T'') (py_str date_str)))"

text \<open>
  \<^verbatim>\<open>float(value) if value else 0.0\<close>, and \<^verbatim>\<open>0.0\<close> when \<^verbatim>\<open>float\<close> raises. A text such as
  \<^verbatim>\<open>nan\<close> or \<^verbatim>\<open>inf\<close> does not raise: its value is what \<open>float_of_str\<close> gives.
\<close>

definition parse_float :: "runtime \<Rightarrow> pyval \<Rightarrow> pyfloat" where
  "parse_float rt v =
     (if truthy v then
        (case v of
           PyStr s \<Rightarrow> (case float_of_str rt s of None \<Rightarrow> Fin 0 | Some x \<Rightarrow> x)
         | PyInt n \<Rightarrow> (case float_of_int rt n of None \<Rightarrow> Fin 0 | Some x \<Rightarrow> x)
         | PyNone \<Rightarrow> Fin 0)
      else Fin 0)"

definition location_contains :: "runtime \<Rightarrow> pyval \<Rightarrow> string \<Rightarrow> bool" where
  "location_contains rt location text = contains (lower rt (py_str location)) (lower rt (u text))"

subsection \<open>Arithmetic on the numbers of the report\<close>

text \<open>
  An \<^verbatim>\<open>int\<close> operand that meets a \<^verbatim>\<open>float\<close> is converted first. The engine converts the
  \<^verbatim>\<open>0\<close> of an empty sum, the literal \<^verbatim>\<open>100\<close> and lengths of lists, never an \<^verbatim>\<open>int\<close> large
  enough for the \<^verbatim>\<open>OverflowError\<close> that \<open>None\<close> stands for.
\<close>

definition int_to_float :: "runtime \<Rightarrow> int \<Rightarrow> pyfloat" where
  "int_to_float rt n = (case float_of_int rt n of None \<Rightarrow> PInf | Some x \<Rightarrow> x)"

fun to_float :: "runtime \<Rightarrow> number \<Rightarrow> pyfloat" where
  "to_float rt (NInt n) = int_to_float rt n"
| "to_float rt (NFloat x) = x"

fun num_add :: "runtime \<Rightarrow> number \<Rightarrow> number \<Rightarrow> number" where
  "num_add rt (NInt a) (NInt b) = NInt (a + b)"
| "num_add rt a b = NFloat (f_add rt (to_float rt a) (to_float rt b))"

fun num_sub :: "runtime \<Rightarrow> number \<Rightarrow> number \<Rightarrow> number" where
  "num_sub rt (NInt a) (NInt b) = NInt (a - b)"
| "num_sub rt a b = NFloat (f_sub rt (to_float rt a) (to_float rt b))"

fun num_mul :: "runtime \<Rightarrow> number \<Rightarrow> number \<Rightarrow> number" where
  "num_mul rt (NInt a) (NInt b) = NInt (a * b)"
| "num_mul rt a b = NFloat (f_mul rt (to_float rt a) (to_float rt b))"

text \<open>True division \<^verbatim>\<open>a / b\<close>; the engine divides by lengths of non-empty lists and by a
  price it has tested to be positive.\<close>

fun num_div :: "runtime \<Rightarrow> number \<Rightarrow> number \<Rightarrow> number" where
  "num_div rt (NInt a) (NInt b) = NFloat (int_div rt a b)"
| "num_div rt a b = NFloat (f_div rt (to_float rt a) (to_float rt b))"

text \<open>The comparisons \<^verbatim>\<open>x > 0\<close> and \<^verbatim>\<open>x == 0\<close> of a float: NaN satisfies neither.\<close>

definition f_pos :: "pyfloat \<Rightarrow> bool" where
  "f_pos x = (case x of Fin q \<Rightarrow> q > 0 | PInf \<Rightarrow> True | NInf \<Rightarrow> False | NaN \<Rightarrow> False)"

definition f_zero :: "pyfloat \<Rightarrow> bool" where
  "f_zero x = (case x of Fin q \<Rightarrow> q = 0 | PInf \<Rightarrow> False | NInf \<Rightarrow> False | NaN \<Rightarrow> False)"

text \<open>The comparison \<^verbatim>\<open>a == b\<close> of two numbers: NaN is equal to nothing, not even to itself.\<close>

fun num_eq :: "number \<Rightarrow> number \<Rightarrow> bool" where
  "num_eq (NInt a) (NInt b) = (a = b)"
| "num_eq (NInt a) (NFloat y) = (y = Fin (of_int a))"
| "num_eq (NFloat x) (NInt b) = (x = Fin (of_int b))"
| "num_eq (NFloat x) (NFloat y) = (x \<noteq> NaN \<and> x = y)"

definition is_nan :: "number \<Rightarrow> bool" where
  "is_nan a = (a = NFloat NaN)"

text \<open>\<^verbatim>\<open>sum(xs)\<close> starts from the int \<^verbatim>\<open>0\<close>, which is the sum of nothing.\<close>

definition py_sum :: "runtime \<Rightarrow> pyfloat list \<Rightarrow> number" where
  "py_sum rt xs = (if xs = [] then NInt 0 else NFloat (f_sum rt xs))"

text \<open>\<^verbatim>\<open>len(xs)\<close>.\<close>

definition len :: "'a list \<Rightarrow> number" where
  "len xs = NInt (int (length xs))"

section \<open>The report engine (\<^verbatim>\<open>analyze_homebox_rows\<close>)\<close>

text \<open>
  The report is a \<^verbatim>\<open>dict\<close> whose values are numbers, the two range bounds, lists of rows
  (addresses of the caller's rows) and the table by location, kept in insertion order.
\<close>

datatype repval =
    RNum number
  | RDate datetime
  | RRows "addr list"
  | RByLoc "(pyval \<times> int \<times> number) list"

type_synonym report = "string \<rightharpoonup> repval"

text \<open>A \<^verbatim>\<open>dict\<close> display stores its entries from left to right: a repeated key keeps the last value.\<close>

definition dict_literal :: "(string \<times> repval) list \<Rightarrow> report" where
  "dict_literal kvs = fold (\<lambda>(k, v) m. m(k \<mapsto> v)) kvs Map.empty"

definition is_in_range :: "datetime \<Rightarrow> datetime \<Rightarrow> datetime option \<Rightarrow> bool" where
  "is_in_range start_date end_date d =
     (case d of
        None \<Rightarrow> False
      | Some t \<Rightarrow> date_le (dt_date start_date) (dt_date t) \<and> date_le (dt_date t) (dt_date end_date))"

text \<open>\<^verbatim>\<open>parse_float(item.get(k, 0))\<close>.\<close>

definition float_field :: "runtime \<Rightarrow> row \<Rightarrow> string \<Rightarrow> pyfloat" where
  "float_field rt item k = parse_float rt (get_default item k (PyInt 0))"

text \<open>\<^verbatim>\<open>sum(parse_float(item.get(k, 0)) for item in items)\<close>.\<close>

definition sum_field :: "runtime \<Rightarrow> heap \<Rightarrow> string \<Rightarrow> addr list \<Rightarrow> number" where
  "sum_field rt h k items = py_sum rt (map (\<lambda>item. float_field rt (h item) k) items)"

text \<open>
  The test \<^verbatim>\<open>d = parse_date(r.get(k)); if d and is_in_range(d)\<close>, which the engine makes
  on \<^verbatim>\<open>HB.sold_time\<close> and on \<^verbatim>\<open>HB.purchase_time\<close>.
\<close>

definition date_in_range :: "runtime \<Rightarrow> datetime \<Rightarrow> datetime \<Rightarrow> row \<Rightarrow> string \<Rightarrow> bool" where
  "date_in_range rt start_date end_date r k =
     (let d = parse_date rt (get r k) in d \<noteq> None \<and> is_in_range start_date end_date d)"

text \<open>The local \<^verbatim>\<open>is_service\<close>, on the lowered labels and location.\<close>

definition is_service :: "ustr \<Rightarrow> ustr \<Rightarrow> bool" where
  "is_service labels location =
     (contains labels (u ''service'') \<or> contains labels (u ''labor'')
      \<or> contains labels (u ''other income'') \<or> contains location (u ''service'')
      \<or> contains location (u ''other income''))"

text \<open>Steps 1 and 2: the sales of the period, split into products and services.\<close>

fun sales_loop ::
  "runtime \<Rightarrow> heap \<Rightarrow> datetime \<Rightarrow> datetime \<Rightarrow> addr list \<Rightarrow> addr list \<Rightarrow> addr list
     \<Rightarrow> py_error + (addr list \<times> addr list)" where
  "sales_loop rt h start_date end_date [] month_sales_products month_sales_services =
     Inr (month_sales_products, month_sales_services)"
| "sales_loop rt h start_date end_date (r # rows) month_sales_products month_sales_services =
     (if date_in_range rt start_date end_date (h r) ''HB.sold_time'' then
        (case lower_method rt (get_default (h r) ''HB.labels'' (PyStr [])) of
           Inl e \<Rightarrow> Inl e
         | Inr labels \<Rightarrow>
             (case lower_method rt (get_default (h r) ''HB.location'' (PyStr [])) of
                Inl e \<Rightarrow> Inl e
              | Inr location \<Rightarrow>
                  if is_service labels location
                  then sales_loop rt h start_date end_date rows
                         month_sales_products (month_sales_services @ [r])
                  else if \<not> contains location (u ''loss'')
                  then sales_loop rt h start_date end_date rows
                         (month_sales_products @ [r]) month_sales_services
                  else sales_loop rt h start_date end_date rows
                         month_sales_products month_sales_services))
      else sales_loop rt h start_date end_date rows month_sales_products month_sales_services)"

text \<open>Step 3: the ROI of every sale with a cost.\<close>

fun roi_loop :: "runtime \<Rightarrow> heap \<Rightarrow> addr list \<Rightarrow> pyfloat list" where
  "roi_loop rt h [] = []"
| "roi_loop rt h (item # items) =
     (let p = float_field rt (h item) ''HB.purchase_price'';
          s = float_field rt (h item) ''HB.sold_price''
      in if f_pos p
         then f_mul rt (f_div rt (f_sub rt s p) p) (int_to_float rt 100) # roi_loop rt h items
         else roi_loop rt h items)"

text \<open>
  Step 6: active and stale inventory. A stale row gets its \<^verbatim>\<open>days_held\<close> written into the
  row itself, so the loop threads the store.
\<close>

fun inventory_loop ::
  "runtime \<Rightarrow> datetime \<Rightarrow> addr list \<Rightarrow> heap \<times> addr list \<times> addr list
     \<Rightarrow> heap \<times> addr list \<times> addr list" where
  "inventory_loop rt now [] st = st"
| "inventory_loop rt now (r # rows) (h, active_inventory, stale_inventory) =
     (if get (h r) ''HB.archived'' = PyStr (u ''true'')
      then inventory_loop rt now rows (h, active_inventory, stale_inventory)
      else if contains_any (lower rt (py_str (get_default (h r) ''HB.location'' (PyStr []))))
                [u ''nfs'', u ''other income'', u ''junkagie'', u ''business assets'']
      then inventory_loop rt now rows (h, active_inventory, stale_inventory)
      else
        (case parse_date rt (get (h r) ''HB.purchase_time'') of
           None \<Rightarrow> inventory_loop rt now rows (h, active_inventory @ [r], stale_inventory)
         | Some p_date \<Rightarrow>
             if sub_days now p_date > 90
             then inventory_loop rt now rows
                    (h(r := (h r)(''days_held'' \<mapsto> PyInt (sub_days now p_date))),
                     active_inventory @ [r], stale_inventory @ [r])
             else inventory_loop rt now rows (h, active_inventory @ [r], stale_inventory)))"

text \<open>
  The sort key \<^verbatim>\<open>x.get('days_held', 0)\<close>. Every row of the stale list carries the integer
  the loop wrote, so the other cases are never compared.
\<close>

definition days_held_key :: "row \<Rightarrow> int" where
  "days_held_key x = (case get_default x ''days_held'' (PyInt 0) of PyInt n \<Rightarrow> n | _ \<Rightarrow> 0)"

text \<open>Step 7: the days between purchase and sale.\<close>

fun days_to_sell_loop :: "runtime \<Rightarrow> heap \<Rightarrow> addr list \<Rightarrow> int list" where
  "days_to_sell_loop rt h [] = []"
| "days_to_sell_loop rt h (item # items) =
     (case parse_date rt (get (h item) ''HB.purchase_time'') of
        None \<Rightarrow> days_to_sell_loop rt h items
      | Some p_date \<Rightarrow>
          (case parse_date rt (get (h item) ''HB.sold_time'') of
             None \<Rightarrow> days_to_sell_loop rt h items
           | Some s_date \<Rightarrow> sub_days s_date p_date # days_to_sell_loop rt h items))"

text \<open>Step 8: the \<^verbatim>\<open>defaultdict\<close> of counts and values by location.\<close>

fun inv_add ::
  "runtime \<Rightarrow> pyval \<Rightarrow> pyfloat \<Rightarrow> (pyval \<times> int \<times> number) list \<Rightarrow> (pyval \<times> int \<times> number) list" where
  "inv_add rt loc v [] = [(loc, 0 + 1, num_add rt (NInt 0) (NFloat v))]"
| "inv_add rt loc v ((k, c, s) # m) =
     (if k = loc then (k, c + 1, num_add rt s (NFloat v)) # m else (k, c, s) # inv_add rt loc v m)"

fun inv_by_loc_loop ::
  "runtime \<Rightarrow> heap \<Rightarrow> addr list \<Rightarrow> (pyval \<times> int \<times> number) list
     \<Rightarrow> (pyval \<times> int \<times> number) list" where
  "inv_by_loc_loop rt h [] inv_by_loc = inv_by_loc"
| "inv_by_loc_loop rt h (item # items) inv_by_loc =
     (if get (h item) ''HB.archived'' \<noteq> PyStr (u ''true'')
      then inv_by_loc_loop rt h items
             (inv_add rt (get_default (h item) ''HB.location'' (PyStr (u ''Unknown'')))
                (float_field rt (h item) ''HB.purchase_price'') inv_by_loc)
      else inv_by_loc_loop rt h items inv_by_loc)"

text \<open>\<^verbatim>\<open>min(ds) if ds else 0\<close> and \<^verbatim>\<open>max(ds) if ds else 0\<close>.\<close>

definition min_or_0 :: "int list \<Rightarrow> int" where
  "min_or_0 ds = (case ds of [] \<Rightarrow> 0 | d # ds' \<Rightarrow> fold min ds' d)"

definition max_or_0 :: "int list \<Rightarrow> int" where
  "max_or_0 ds = (case ds of [] \<Rightarrow> 0 | d # ds' \<Rightarrow> fold max ds' d)"

text \<open>
  The engine. \<open>rt\<close> is the runtime and \<open>now\<close> the value of \<^verbatim>\<open>datetime.now()\<close>. The result
  is the report, or the exception that escaped, together with the store as the call
  leaves it.
\<close>

definition analyze_homebox_rows ::
  "runtime \<Rightarrow> datetime \<Rightarrow> heap \<Rightarrow> addr list \<Rightarrow> datetime \<Rightarrow> datetime
     \<Rightarrow> (py_error + report) \<times> heap" where
  "analyze_homebox_rows rt now h rows start_date end_date =
     (case sales_loop rt h start_date end_date rows [] [] of
        Inl e \<Rightarrow> (Inl e, h)
      | Inr (month_sales_products, month_sales_services) \<Rightarrow>
          (let
             total_revenue = sum_field rt h ''HB.sold_price'' month_sales_products;
             items_with_cost =
               filter (\<lambda>item. f_pos (float_field rt (h item) ''HB.purchase_price''))
                 month_sales_products;
             free_items =
               filter (\<lambda>item. f_zero (float_field rt (h item) ''HB.purchase_price''))
                 month_sales_products;
             cogs = sum_field rt h ''HB.purchase_price'' items_with_cost;
             net_profit = num_sub rt total_revenue cogs;
             roi_values = roi_loop rt h items_with_cost;
             avg_roi = (if roi_values \<noteq> []
                        then num_div rt (py_sum rt roi_values) (len roi_values) else NInt 0);
             service_revenue = sum_field rt h ''HB.sold_price'' month_sales_services;
             other_income_items = month_sales_services;
             business_items =
               filter (\<lambda>r. date_in_range rt start_date end_date (h r) ''HB.purchase_time''
                   \<and> \<not> contains_any
                         (lower rt (py_str (get_default (h r) ''HB.location'' (PyStr []))))
                         [u ''nfs'', u ''other income'', u ''junkagie''])
                 rows;
             total_business_expenses = sum_field rt h ''HB.purchase_price'' business_items;
             period_expenses =
               filter (\<lambda>r. date_in_range rt start_date end_date (h r) ''HB.purchase_time'') rows;
             total_all_expenses = sum_field rt h ''HB.purchase_price'' period_expenses;
             business_assets =
               filter (\<lambda>r. location_contains rt (get_default (h r) ''HB.location'' (PyStr []))
                              ''Business Assets'') rows;
             business_assets_value = sum_field rt h ''HB.purchase_price'' business_assets;
             loss_items =
               filter (\<lambda>r. location_contains rt (get_default (h r) ''HB.location'' (PyStr []))
                              ''Loss''
                              \<and> date_in_range rt start_date end_date (h r) ''HB.sold_time'')
                 rows;
             loss_value = sum_field rt h ''HB.purchase_price'' loss_items;
             junkagie_items =
               filter (\<lambda>r. location_contains rt (get_default (h r) ''HB.location'' (PyStr []))
                              ''Junkagie'') rows;
             junkagie_count = len junkagie_items
           in
             (case inventory_loop rt now rows (h, [], []) of
                (h', active_inventory, stale_unsorted) \<Rightarrow>
                  (let
                     total_active_value = sum_field rt h' ''HB.purchase_price'' active_inventory;
                     stale_inventory = sort_key (\<lambda>x. - days_held_key (h' x)) stale_unsorted;
                     marketplace_items =
                       filter (\<lambda>r. get (h' r) ''HB.insured'' = PyStr (u ''true'')
                                    \<and> get (h' r) ''HB.archived'' \<noteq> PyStr (u ''true'')) rows;
                     marketplace_value = sum_field rt h' ''HB.purchase_price'' marketplace_items;
                     days_to_sell = days_to_sell_loop rt h' month_sales_products;
                     avg_days = (if days_to_sell \<noteq> []
                                 then num_div rt (NInt (sum_list days_to_sell)) (len days_to_sell)
                                 else NInt 0);
                     quick_flips = len (filter (\<lambda>d. d \<le> 14) days_to_sell);
                     inv_by_loc = inv_by_loc_loop rt h' rows []
                   in
                     (Inr (dict_literal
                        [(''start_date'', RDate start_date),
                         (''end_date'', RDate end_date),
                         (''product_revenue'', RNum total_revenue),
                         (''service_revenue'', RNum service_revenue),
                         (''total_revenue'', RNum (num_add rt total_revenue service_revenue)),
                         (''cogs'', RNum cogs),
                         (''net_profit'', RNum net_profit),
                         (''service_profit'', RNum service_revenue),
                         (''total_profit'', RNum (num_add rt net_profit service_revenue)),
                         (''avg_roi'', RNum avg_roi),
                         (''items_sold'', RNum (len month_sales_products)),
                         (''items_with_cost'', RNum (len items_with_cost)),
                         (''free_items_count'', RNum (len free_items)),
                         (''avg_sale_price'',
                            RNum (if month_sales_products \<noteq> []
                                  then num_div rt total_revenue (len month_sales_products)
                                  else NInt 0)),
                         (''avg_profit_per_item'',
                            RNum (if month_sales_products \<noteq> []
                                  then num_div rt net_profit (len month_sales_products)
                                  else NInt 0)),
                         (''business_expenses'', RNum total_business_expenses),
                         (''total_expenses'', RNum total_all_expenses),
                         (''business_assets_value'', RNum business_assets_value),
                         (''business_assets_count'', RNum (len business_assets)),
                         (''business_assets'', RRows business_assets),
                         (''loss_value'', RNum loss_value),
                         (''loss_count'', RNum (len loss_items)),
                         (''junkagie_count'', RNum junkagie_count),
                         (''junkagie_potential'', RNum (num_mul rt junkagie_count (NInt 5))),
                         (''active_inventory_value'', RNum (NInt 0)),
                         (''active_inventory_count'', RNum (NInt 0)),
                         (''total_active_value'', RNum total_active_value),
                         (''total_active_count'', RNum (len active_inventory)),
                         (''stale_inventory'', RRows stale_inventory),
                         (''stale_count'', RNum (len stale_inventory)),
                         (''marketplace_value'', RNum marketplace_value),
                         (''marketplace_count'', RNum (len marketplace_items)),
                         (''avg_days_to_sell'', RNum avg_days),
                         (''quick_flips'', RNum quick_flips),
                         (''fastest_sale'', RNum (NInt (min_or_0 days_to_sell))),
                         (''slowest_sale'', RNum (NInt (max_or_0 days_to_sell))),
                         (''month_sales'', RRows month_sales_products),
                         (''items_with_cost'', RRows items_with_cost),
                         (''free_items'', RRows free_items),
                         (''other_income_items'', RRows other_income_items),
                         (''inventory_by_location'', RByLoc inv_by_loc)]),
                      h')))))"

text \<open>Reading a key of the report a call returns (\<open>None\<close> when the call raised).\<close>

definition report_of :: "(py_error + report) \<times> heap \<Rightarrow> string \<Rightarrow> repval option" where
  "report_of res k = (case fst res of Inl e \<Rightarrow> None | Inr rep \<Rightarrow> rep k)"

definition raised :: "(py_error + report) \<times> heap \<Rightarrow> py_error option" where
  "raised res = (case fst res of Inl e \<Rightarrow> Some e | Inr rep \<Rightarrow> None)"

section \<open>The conditions of the loops, row by row\<close>

text \<open>
  The loops of the engine decide each row by a condition on that row alone. The conditions
  are named here, as the loops test them, to state what the lists of the report hold.
\<close>

definition is_text :: "pyval \<Rightarrow> bool" where
  "is_text v = (case v of PyStr t \<Rightarrow> True | _ \<Rightarrow> False)"

text \<open>\<^verbatim>\<open>r.get(k, '').lower()\<close> where it does not raise.\<close>

definition lowered :: "runtime \<Rightarrow> row \<Rightarrow> string \<Rightarrow> ustr" where
  "lowered rt r k = (case get_default r k (PyStr []) of PyStr t \<Rightarrow> lower rt t | _ \<Rightarrow> [])"

definition text_fields_ok :: "row \<Rightarrow> bool" where
  "text_fields_ok r =
     (is_text (get_default r ''HB.labels'' (PyStr [])) \<and>
      is_text (get_default r ''HB.location'' (PyStr [])))"

definition service_sale :: "runtime \<Rightarrow> datetime \<Rightarrow> datetime \<Rightarrow> row \<Rightarrow> bool" where
  "service_sale rt start_date end_date r =
     (date_in_range rt start_date end_date r ''HB.sold_time'' \<and>
      is_service (lowered rt r ''HB.labels'') (lowered rt r ''HB.location''))"

definition product_sale :: "runtime \<Rightarrow> datetime \<Rightarrow> datetime \<Rightarrow> row \<Rightarrow> bool" where
  "product_sale rt start_date end_date r =
     (date_in_range rt start_date end_date r ''HB.sold_time'' \<and>
      \<not> is_service (lowered rt r ''HB.labels'') (lowered rt r ''HB.location'') \<and>
      \<not> contains (lowered rt r ''HB.location'') (u ''loss''))"

definition loss_item :: "runtime \<Rightarrow> datetime \<Rightarrow> datetime \<Rightarrow> row \<Rightarrow> bool" where
  "loss_item rt start_date end_date r =
     (location_contains rt (get_default r ''HB.location'' (PyStr [])) ''Loss'' \<and>
      date_in_range rt start_date end_date r ''HB.sold_time'')"

definition special_bucket :: "runtime \<Rightarrow> row \<Rightarrow> bool" where
  "special_bucket rt r =
     contains_any (lower rt (py_str (get_default r ''HB.location'' (PyStr []))))
       [u ''nfs'', u ''other income'', u ''junkagie'', u ''business assets'']"

definition active :: "runtime \<Rightarrow> row \<Rightarrow> bool" where
  "active rt r = (get r ''HB.archived'' \<noteq> PyStr (u ''true'') \<and> \<not> special_bucket rt r)"

definition stale :: "runtime \<Rightarrow> datetime \<Rightarrow> row \<Rightarrow> bool" where
  "stale rt now r =
     (active rt r \<and>
      (case parse_date rt (get r ''HB.purchase_time'') of
         None \<Rightarrow> False | Some p_date \<Rightarrow> sub_days now p_date > 90))"

definition on_marketplace :: "row \<Rightarrow> bool" where
  "on_marketplace r =
     (get r ''HB.insured'' = PyStr (u ''true'') \<and> get r ''HB.archived'' \<noteq> PyStr (u ''true''))"

text \<open>The row after \<^verbatim>\<open>r['days_held'] = days_held\<close>.\<close>

definition annotated :: "runtime \<Rightarrow> datetime \<Rightarrow> row \<Rightarrow> row" where
  "annotated rt now r =
     (case parse_date rt (get r ''HB.purchase_time'') of
        None \<Rightarrow> r | Some p_date \<Rightarrow> r(''days_held'' \<mapsto> PyInt (sub_days now p_date)))"

text \<open>The store in which every stale row of the list carries its annotation.\<close>

definition annotate_stale :: "runtime \<Rightarrow> datetime \<Rightarrow> heap \<Rightarrow> addr list \<Rightarrow> heap" where
  "annotate_stale rt now h rows =
     (\<lambda>a. if a \<in> set (filter (\<lambda>r. stale rt now (h r)) rows) then annotated rt now (h a)
          else h a)"

text \<open>The count a location has in the table by location (0 when it has no entry).\<close>

fun inv_count :: "(pyval \<times> int \<times> number) list \<Rightarrow> pyval \<Rightarrow> int" where
  "inv_count [] loc = 0"
| "inv_count ((k, c, s) # m) loc = (if k = loc then c else inv_count m loc)"

text \<open>The store in which the \<^verbatim>\<open>HB.archived\<close> entry of every row is replaced (or removed).\<close>

definition set_archived :: "(addr \<Rightarrow> pyval option) \<Rightarrow> heap \<Rightarrow> heap" where
  "set_archived flag h = (\<lambda>a. (h a)(''HB.archived'' := flag a))"

section \<open>Example inputs\<close>

text \<open>
  A runtime for the examples. It computes without rounding and reads unsigned decimal
  integers and \<^verbatim>\<open>nan\<close>. On the examples below it gives what CPython gives: their texts are
  ASCII, their prices are small integers or \<^verbatim>\<open>nan\<close>, and their sums, differences, products
  and quotients are integers, which binary64 represents exactly.
\<close>

definition float_plain :: "ustr \<Rightarrow> pyfloat option" where
  "float_plain s =
     (if s = u ''nan'' then Some NaN
      else if s \<noteq> [] \<and> list_all (between CHR ''0'' CHR ''9'') s
      then Some (Fin (of_int (foldl (\<lambda>n c. 10 * n + (int c - 48)) 0 s)))
      else None)"

definition f_sign :: "pyfloat \<Rightarrow> rat" where
  "f_sign x = (case x of Fin q \<Rightarrow> sgn q | PInf \<Rightarrow> 1 | NInf \<Rightarrow> - 1 | NaN \<Rightarrow> 0)"

definition inf_of_sign :: "rat \<Rightarrow> pyfloat" where
  "inf_of_sign s = (if s > 0 then PInf else if s < 0 then NInf else NaN)"

fun exact_add :: "pyfloat \<Rightarrow> pyfloat \<Rightarrow> pyfloat" where
  "exact_add (Fin a) (Fin b) = Fin (a + b)"
| "exact_add NaN y = NaN"
| "exact_add x NaN = NaN"
| "exact_add PInf NInf = NaN"
| "exact_add NInf PInf = NaN"
| "exact_add PInf y = PInf"
| "exact_add NInf y = NInf"
| "exact_add (Fin a) y = y"

fun exact_neg :: "pyfloat \<Rightarrow> pyfloat" where
  "exact_neg (Fin a) = Fin (- a)"
| "exact_neg PInf = NInf"
| "exact_neg NInf = PInf"
| "exact_neg NaN = NaN"

definition exact_sub :: "pyfloat \<Rightarrow> pyfloat \<Rightarrow> pyfloat" where
  "exact_sub x y = exact_add x (exact_neg y)"

fun exact_mul :: "pyfloat \<Rightarrow> pyfloat \<Rightarrow> pyfloat" where
  "exact_mul (Fin a) (Fin b) = Fin (a * b)"
| "exact_mul NaN y = NaN"
| "exact_mul x NaN = NaN"
| "exact_mul x y = inf_of_sign (f_sign x * f_sign y)"

fun exact_div :: "pyfloat \<Rightarrow> pyfloat \<Rightarrow> pyfloat" where
  "exact_div (Fin a) (Fin b) = Fin (a / b)"
| "exact_div NaN y = NaN"
| "exact_div x NaN = NaN"
| "exact_div (Fin a) y = Fin 0"
| "exact_div x (Fin b) = inf_of_sign (f_sign x * sgn b)"
| "exact_div x y = NaN"

definition exact_runtime :: runtime where
  "exact_runtime =
     \<lparr>str_lower = (\<lambda>s. s),
      digit_value = (\<lambda>c. None),
      float_of_str = float_plain,
      float_of_int = (\<lambda>n. Some (Fin (of_int n))),
      f_add = exact_add,
      f_sub = exact_sub,
      f_mul = exact_mul,
      f_div = exact_div,
      f_sum = (\<lambda>xs. fold (\<lambda>x acc. exact_add acc x) xs (Fin 0)),
      int_div = (\<lambda>a b. Fin (of_int a / of_int b))\<rparr>"

definition mk_datetime :: "int \<Rightarrow> int \<Rightarrow> int \<Rightarrow> int \<Rightarrow> datetime" where
  "mk_datetime y m d us = \<lparr>dt_date = \<lparr>d_year = y, d_month = m, d_day = d\<rparr>, dt_us = us\<rparr>"

text \<open>The range is November 2025, as the interface builds it, and now is 1 December 2025.\<close>

definition nov_start :: datetime where
  "nov_start = mk_datetime 2025 11 1 0"

definition nov_end :: datetime where
  "nov_end = mk_datetime 2025 11 30 86399999999"

definition dec_1 :: datetime where
  "dec_1 = mk_datetime 2025 12 1 0"

text \<open>
  A product sold in the period with a cost, a sale whose location is \<^verbatim>\<open>Labor\<close>, an
  unarchived item bought in January, and a sale whose labels say \<^verbatim>\<open>service\<close>.
\<close>

definition shop :: heap where
  "shop = (\<lambda>a. Map.empty)
     (0 := [''HB.purchase_price'' \<mapsto> PyStr (u ''100''), ''HB.sold_price'' \<mapsto> PyStr (u ''150''),
            ''HB.sold_time'' \<mapsto> PyStr (u ''2025-11-10''),
            ''HB.purchase_time'' \<mapsto> PyStr (u ''2025-10-01''),
            ''HB.archived'' \<mapsto> PyStr (u ''true''), ''HB.location'' \<mapsto> PyStr (u ''Sold'')],
      1 := [''HB.location'' \<mapsto> PyStr (u ''Labor''), ''HB.sold_price'' \<mapsto> PyStr (u ''200''),
            ''HB.sold_time'' \<mapsto> PyStr (u ''2025-11-12'')],
      2 := [''HB.archived'' \<mapsto> PyStr (u ''false''), ''HB.purchase_price'' \<mapsto> PyStr (u ''50''),
            ''HB.purchase_time'' \<mapsto> PyStr (u ''2025-01-01'')],
      3 := [''HB.labels'' \<mapsto> PyStr (u ''Repair Service''), ''HB.sold_price'' \<mapsto> PyStr (u ''80''),
            ''HB.sold_time'' \<mapsto> PyStr (u ''2025-11-30T18:30:00Z'')])"

text \<open>A product sale whose price reads \<^verbatim>\<open>nan\<close>, and a service sale of 80.\<close>

definition nan_shop :: heap where
  "nan_shop = (\<lambda>a. Map.empty)
     (0 := [''HB.sold_price'' \<mapsto> PyStr (u ''nan''), ''HB.sold_time'' \<mapsto> PyStr (u ''2025-11-10'')],
      1 := [''HB.labels'' \<mapsto> PyStr (u ''service''), ''HB.sold_price'' \<mapsto> PyStr (u ''80''),
            ''HB.sold_time'' \<mapsto> PyStr (u ''2025-11-12'')])"

text \<open>A sale in the period whose location is \<^verbatim>\<open>Labor\<close>, with no labels.\<close>

definition labor_sale :: heap where
  "labor_sale = (\<lambda>a. Map.empty)
     (0 := [''HB.location'' \<mapsto> PyStr (u ''Labor''), ''HB.sold_price'' \<mapsto> PyStr (u ''200''),
            ''HB.sold_time'' \<mapsto> PyStr (u ''2025-11-12'')])"

text \<open>A sale in the period whose labels are \<^verbatim>\<open>None\<close>.\<close>

definition none_labels :: heap where
  "none_labels = (\<lambda>a. Map.empty)
     (0 := [''HB.labels'' \<mapsto> PyNone, ''HB.sold_price'' \<mapsto> PyStr (u ''150''),
            ''HB.sold_time'' \<mapsto> PyStr (u ''2025-11-10'')])"

text \<open>
  Three items that are not archived and have a sold date in the period: a product, a
  service and a loss.
\<close>

definition unarchived_sales :: heap where
  "unarchived_sales = (\<lambda>a. Map.empty)
     (0 := [''HB.archived'' \<mapsto> PyStr (u ''false''), ''HB.location'' \<mapsto> PyStr (u ''Garage''),
            ''HB.sold_price'' \<mapsto> PyStr (u ''150''), ''HB.sold_time'' \<mapsto> PyStr (u ''2025-11-10'')],
      1 := [''HB.archived'' \<mapsto> PyStr (u ''false''), ''HB.labels'' \<mapsto> PyStr (u ''service''),
            ''HB.sold_price'' \<mapsto> PyStr (u ''80''), ''HB.sold_time'' \<mapsto> PyStr (u ''2025-11-12'')],
      2 := [''HB.archived'' \<mapsto> PyStr (u ''false''), ''HB.location'' \<mapsto> PyStr (u ''Loss''),
            ''HB.purchase_price'' \<mapsto> PyStr (u ''20''),
            ''HB.sold_time'' \<mapsto> PyStr (u ''2025-11-20'')])"

text \<open>
  Items whose \<^verbatim>\<open>archived\<close> is \<^verbatim>\<open>True\<close>, \<^verbatim>\<open>1\<close>, \<^verbatim>\<open>yes\<close>, absent and \<^verbatim>\<open>true\<close>; the first is
  insured \<^verbatim>\<open>true\<close>, the second insured \<^verbatim>\<open>True\<close>.
\<close>

definition flags :: heap where
  "flags = (\<lambda>a. Map.empty)
     (0 := [''HB.archived'' \<mapsto> PyStr (u ''True''), ''HB.insured'' \<mapsto> PyStr (u ''true''),
            ''HB.location'' \<mapsto> PyStr (u ''Shelf'')],
      1 := [''HB.archived'' \<mapsto> PyStr (u ''1''), ''HB.insured'' \<mapsto> PyStr (u ''True''),
            ''HB.location'' \<mapsto> PyStr (u ''Shelf'')],
      2 := [''HB.archived'' \<mapsto> PyStr (u ''yes''), ''HB.location'' \<mapsto> PyStr (u ''Shelf'')],
      3 := [''HB.location'' \<mapsto> PyStr (u ''Shelf'')],
      4 := [''HB.archived'' \<mapsto> PyStr (u ''true''), ''HB.insured'' \<mapsto> PyStr (u ''true''),
            ''HB.location'' \<mapsto> PyStr (u ''Shelf'')])"

text \<open>
  A product sold on 10 November and bought, by its record, on 20 November; and a product
  bought on 1 October and sold on 10 November.
\<close>

definition backdated :: heap where
  "backdated = (\<lambda>a. Map.empty)
     (0 := [''HB.sold_price'' \<mapsto> PyStr (u ''10''), ''HB.sold_time'' \<mapsto> PyStr (u ''2025-11-10''),
            ''HB.purchase_time'' \<mapsto> PyStr (u ''2025-11-20'')],
      1 := [''HB.sold_price'' \<mapsto> PyStr (u ''150''), ''HB.sold_time'' \<mapsto> PyStr (u ''2025-11-10''),
            ''HB.purchase_time'' \<mapsto> PyStr (u ''2025-10-01'')])"

text \<open>
  Sales on the first and the last day of November, the last one with a time of day, and on
  the days before and after.
\<close>

definition edges :: heap where
  "edges = (\<lambda>a. Map.empty)
     (0 := [''HB.sold_time'' \<mapsto> PyStr (u ''2025-11-01'')],
      1 := [''HB.sold_time'' \<mapsto> PyStr (u ''2025-11-30T23:59:59Z'')],
      2 := [''HB.sold_time'' \<mapsto> PyStr (u ''2025-10-31'')],
      3 := [''HB.sold_time'' \<mapsto> PyStr (u ''2025-12-01'')])"

subsection \<open>Rows and the annotation\<close>

lemma get_upd_other: "k \<noteq> k' \<Longrightarrow> get (r(k' \<mapsto> v)) k = get r k"
  by (simp add: get_def)

lemma get_default_upd_other: "k \<noteq> k' \<Longrightarrow> get_default (r(k' \<mapsto> v)) k d = get_default r k d"
  by (simp add: get_default_def)

lemma annotated_other: "k \<noteq> ''days_held'' \<Longrightarrow> annotated rt now r k = r k"
  by (simp add: annotated_def split: option.splits)

lemma get_annotated: "k \<noteq> ''days_held'' \<Longrightarrow> get (annotated rt now r) k = get r k"
  by (simp add: get_def annotated_other)

lemma get_default_annotated:
  "k \<noteq> ''days_held'' \<Longrightarrow> get_default (annotated rt now r) k d = get_default r k d"
  by (simp add: get_default_def annotated_other)

lemma annotated_idem: "annotated rt now (annotated rt now r) = annotated rt now r"
  by (simp add: annotated_def get_upd_other split: option.splits)

lemma active_annotated: "active rt (annotated rt now r) = active rt r"
  by (simp add: active_def special_bucket_def get_annotated get_default_annotated)

lemma stale_annotated: "stale rt now (annotated rt now r) = stale rt now r"
  by (simp add: stale_def active_annotated get_annotated)

lemma float_field_annotated:
  "k \<noteq> ''days_held'' \<Longrightarrow> float_field rt (annotated rt now r) k = float_field rt r k"
  by (simp add: float_field_def get_default_annotated)

subsection \<open>The sales loop\<close>

lemma lower_method_Inr: "lower_method rt v = Inr t \<longleftrightarrow> (\<exists>s. v = PyStr s \<and> t = lower rt s)"
  by (cases v) auto

lemma lower_method_Inl: "lower_method rt v = Inl e \<longleftrightarrow> \<not> is_text v \<and> e = AttributeError"
  by (cases v) (auto simp: is_text_def)

lemma sales_loop_Inr:
  "sales_loop rt h sd ed rows P S = Inr (p, s) \<Longrightarrow>
     p = P @ filter (\<lambda>r. product_sale rt sd ed (h r)) rows \<and>
     s = S @ filter (\<lambda>r. service_sale rt sd ed (h r)) rows \<and>
     (\<forall>r\<in>set rows. date_in_range rt sd ed (h r) ''HB.sold_time'' \<longrightarrow> text_fields_ok (h r))"
proof (induction rows arbitrary: P S)
  case Nil
  then show ?case by simp
next
  case (Cons r rows)
  show ?case
  proof (cases "date_in_range rt sd ed (h r) ''HB.sold_time''")
    case False
    with Cons show ?thesis by (simp add: product_sale_def service_sale_def)
  next
    case True
    from Cons.prems True obtain l where l: "get_default (h r) ''HB.labels'' (PyStr []) = PyStr l"
      by (cases "get_default (h r) ''HB.labels'' (PyStr [])") auto
    from Cons.prems True l obtain c where c: "get_default (h r) ''HB.location'' (PyStr []) = PyStr c"
      by (cases "get_default (h r) ''HB.location'' (PyStr [])") auto
    have ok: "text_fields_ok (h r)" by (simp add: text_fields_ok_def l c is_text_def)
    have lo: "lowered rt (h r) ''HB.labels'' = lower rt l" "lowered rt (h r) ''HB.location'' = lower rt c"
      by (simp_all add: lowered_def l c)
    consider (srv) "is_service (lower rt l) (lower rt c)"
      | (prod) "\<not> is_service (lower rt l) (lower rt c)" "\<not> contains (lower rt c) (u ''loss'')"
      | (loss) "\<not> is_service (lower rt l) (lower rt c)" "contains (lower rt c) (u ''loss'')"
      by blast
    then show ?thesis
    proof cases
      case srv
      with Cons.prems True have "sales_loop rt h sd ed rows P (S @ [r]) = Inr (p, s)"
        by (simp add: l c)
      from Cons.IH [OF this] show ?thesis
        using True ok srv by (simp add: lo product_sale_def service_sale_def)
    next
      case prod
      with Cons.prems True have "sales_loop rt h sd ed rows (P @ [r]) S = Inr (p, s)"
        by (simp add: l c)
      from Cons.IH [OF this] show ?thesis
        using True ok prod by (simp add: lo product_sale_def service_sale_def)
    next
      case loss
      with Cons.prems True have "sales_loop rt h sd ed rows P S = Inr (p, s)"
        by (simp add: l c)
      from Cons.IH [OF this] show ?thesis
        using True ok loss by (simp add: lo product_sale_def service_sale_def)
    qed
  qed
qed

lemma sales_loop_total:
  "(\<forall>r\<in>set rows. date_in_range rt sd ed (h r) ''HB.sold_time'' \<longrightarrow> text_fields_ok (h r)) \<Longrightarrow>
   \<exists>p s. sales_loop rt h sd ed rows P S = Inr (p, s)"
proof (induction rows arbitrary: P S)
  case Nil
  then show ?case by simp
next
  case (Cons r rows)
  then show ?case
    by (auto simp: text_fields_ok_def is_text_def split: pyval.splits)
qed

lemma sales_loop_raises:
  "r \<in> set rows \<Longrightarrow> date_in_range rt sd ed (h r) ''HB.sold_time'' \<Longrightarrow> \<not> text_fields_ok (h r) \<Longrightarrow>
   sales_loop rt h sd ed rows P S = Inl AttributeError"
proof -
  assume a: "r \<in> set rows" "date_in_range rt sd ed (h r) ''HB.sold_time''" "\<not> text_fields_ok (h r)"
  show ?thesis
  proof (cases "sales_loop rt h sd ed rows P S")
    case (Inl e)
    then show ?thesis by (cases e) simp
  next
    case (Inr ps)
    then show ?thesis using a sales_loop_Inr [of rt h sd ed rows P S "fst ps" "snd ps"] by auto
  qed
qed

lemma sales_loop_cong:
  "(\<forall>r\<in>set rows. g r ''HB.sold_time'' = h r ''HB.sold_time'' \<and> g r ''HB.labels'' = h r ''HB.labels''
       \<and> g r ''HB.location'' = h r ''HB.location'') \<Longrightarrow>
   sales_loop rt g sd ed rows P S = sales_loop rt h sd ed rows P S"
proof (induction rows arbitrary: P S)
  case Nil
  then show ?case by simp
next
  case (Cons r rows)
  have e: "get (g r) ''HB.sold_time'' = get (h r) ''HB.sold_time''"
    "get_default (g r) ''HB.labels'' (PyStr []) = get_default (h r) ''HB.labels'' (PyStr [])"
    "get_default (g r) ''HB.location'' (PyStr []) = get_default (h r) ''HB.location'' (PyStr [])"
    using Cons.prems by (simp_all add: get_def get_default_def)
  have ih: "sales_loop rt g sd ed rows P' S' = sales_loop rt h sd ed rows P' S'" for P' S'
    using Cons.prems by (intro Cons.IH) simp
  show ?case
    by (simp only: sales_loop.simps date_in_range_def e ih)
qed

subsection \<open>The inventory loop\<close>

lemma inventory_loop_result:
  "inventory_loop rt now rows (h, A, S) =
     ((\<lambda>a. if a \<in> set (filter (\<lambda>r. stale rt now (h r)) rows) then annotated rt now (h a) else h a),
      A @ filter (\<lambda>r. active rt (h r)) rows,
      S @ filter (\<lambda>r. stale rt now (h r)) rows)"
proof (induction rows arbitrary: h A S)
  case Nil
  then show ?case by simp
next
  case (Cons r rows)
  show ?case
  proof (cases "stale rt now (h r)")
    case False
    then show ?thesis
      by (auto simp: Cons.IH stale_def active_def special_bucket_def split: option.splits)
  next
    case True
    then obtain p where p: "parse_date rt (get (h r) ''HB.purchase_time'') = Some p"
      and d: "sub_days now p > 90" and act: "active rt (h r)"
      by (auto simp: stale_def split: option.splits)
    define h2 where "h2 = h(r := (h r)(''days_held'' \<mapsto> PyInt (sub_days now p)))"
    have h2: "h2 = h(r := annotated rt now (h r))"
      by (simp add: h2_def annotated_def p)
    have st: "stale rt now (h2 a) = stale rt now (h a)" for a
      by (simp add: h2 stale_annotated)
    have ac: "active rt (h2 a) = active rt (h a)" for a
      by (simp add: h2 active_annotated)
    have an: "annotated rt now (h2 a) = annotated rt now (h a)" for a
      by (simp add: h2 annotated_idem)
    have step: "inventory_loop rt now (r # rows) (h, A, S) =
        inventory_loop rt now rows (h2, A @ [r], S @ [r])"
      using act p d by (simp add: active_def special_bucket_def h2_def)
    show ?thesis
      unfolding step Cons.IH st ac an using True act
      by (auto simp: h2 fun_eq_iff)
  qed
qed

subsection \<open>Reading the store after the annotation\<close>

lemma annotate_stale_other: "k \<noteq> ''days_held'' \<Longrightarrow> annotate_stale rt now h rows a k = h a k"
  by (simp add: annotate_stale_def annotated_other)

lemma inventory_loop_eq:
  "inventory_loop rt now rows (h, [], []) =
     (annotate_stale rt now h rows, filter (\<lambda>r. active rt (h r)) rows, filter (\<lambda>r. stale rt now (h r)) rows)"
  by (simp add: inventory_loop_result annotate_stale_def)

lemma get_annotate_stale:
  "k \<noteq> ''days_held'' \<Longrightarrow> get (annotate_stale rt now h rows a) k = get (h a) k"
  by (simp add: get_def annotate_stale_other)

lemma get_default_annotate_stale:
  "k \<noteq> ''days_held'' \<Longrightarrow> get_default (annotate_stale rt now h rows a) k d = get_default (h a) k d"
  by (simp add: get_default_def annotate_stale_other)

lemma float_field_annotate_stale:
  "k \<noteq> ''days_held'' \<Longrightarrow> float_field rt (annotate_stale rt now h rows a) k = float_field rt (h a) k"
  by (simp add: float_field_def get_default_annotate_stale)

lemma sum_field_annotate_stale:
  "k \<noteq> ''days_held'' \<Longrightarrow> sum_field rt (annotate_stale rt now h rows) k xs = sum_field rt h k xs"
  by (simp add: sum_field_def float_field_annotate_stale)

lemma days_to_sell_annotate_stale:
  "days_to_sell_loop rt (annotate_stale rt now h rows) xs = days_to_sell_loop rt h xs"
  by (induction xs) (simp_all add: get_annotate_stale split: option.splits)

lemma inv_by_loc_annotate_stale:
  "inv_by_loc_loop rt (annotate_stale rt now h rows) xs m = inv_by_loc_loop rt h xs m"
  by (induction xs arbitrary: m)
     (simp_all add: get_annotate_stale get_default_annotate_stale float_field_annotate_stale)

lemma on_marketplace_annotate_stale:
  "(get (annotate_stale rt now h rows r) ''HB.insured'' = PyStr (u ''true'')
      \<and> get (annotate_stale rt now h rows r) ''HB.archived'' \<noteq> PyStr (u ''true'')) = on_marketplace (h r)"
  by (simp add: on_marketplace_def get_annotate_stale)

subsection \<open>The keys of the report\<close>

lemma dict_fields:
  fixes v1 v2 v3 v4 v5 v6 v7 v8 v9 v10 v11 v12 v13 v14 v15 v16 v17 v18 v19 v20 v21
    v22 v23 v24 v25 v26 v27 v28 v29 v30 v31 v32 v33 v34 v35 v36 v37 v38 v39 v40 v41 :: repval
  defines "d \<equiv> dict_literal
     [(''start_date'', v1), (''end_date'', v2), (''product_revenue'', v3),
      (''service_revenue'', v4), (''total_revenue'', v5), (''cogs'', v6),
      (''net_profit'', v7), (''service_profit'', v8), (''total_profit'', v9),
      (''avg_roi'', v10), (''items_sold'', v11), (''items_with_cost'', v12),
      (''free_items_count'', v13), (''avg_sale_price'', v14),
      (''avg_profit_per_item'', v15), (''business_expenses'', v16),
      (''total_expenses'', v17), (''business_assets_value'', v18),
      (''business_assets_count'', v19), (''business_assets'', v20),
      (''loss_value'', v21), (''loss_count'', v22), (''junkagie_count'', v23),
      (''junkagie_potential'', v24), (''active_inventory_value'', v25),
      (''active_inventory_count'', v26), (''total_active_value'', v27),
      (''total_active_count'', v28), (''stale_inventory'', v29), (''stale_count'', v30),
      (''marketplace_value'', v31), (''marketplace_count'', v32),
      (''avg_days_to_sell'', v33), (''quick_flips'', v34), (''fastest_sale'', v35),
      (''slowest_sale'', v36), (''month_sales'', v37), (''items_with_cost'', v38),
      (''free_items'', v39), (''other_income_items'', v40),
      (''inventory_by_location'', v41)]"
  shows "d ''product_revenue'' = Some v3" "d ''service_revenue'' = Some v4"
    "d ''total_revenue'' = Some v5" "d ''net_profit'' = Some v7" "d ''total_profit'' = Some v9"
    "d ''avg_roi'' = Some v10" "d ''items_sold'' = Some v11" "d ''items_with_cost'' = Some v38"
    "d ''free_items_count'' = Some v13" "d ''avg_sale_price'' = Some v14"
    "d ''avg_profit_per_item'' = Some v15" "d ''business_assets_count'' = Some v19"
    "d ''business_assets'' = Some v20" "d ''loss_value'' = Some v21" "d ''loss_count'' = Some v22"
    "d ''total_active_count'' = Some v28" "d ''stale_inventory'' = Some v29"
    "d ''stale_count'' = Some v30" "d ''marketplace_count'' = Some v32"
    "d ''avg_days_to_sell'' = Some v33" "d ''quick_flips'' = Some v34"
    "d ''fastest_sale'' = Some v35" "d ''slowest_sale'' = Some v36" "d ''month_sales'' = Some v37"
    "d ''free_items'' = Some v39" "d ''other_income_items'' = Some v40"
    "d ''inventory_by_location'' = Some v41" "d ''cogs'' = Some v6"
  unfolding d_def by code_simp+

lemma analyze_raises:
  "sales_loop rt h sd ed rows [] [] = Inl e \<Longrightarrow>
   analyze_homebox_rows rt now h rows sd ed = (Inl e, h)"
  by (simp add: analyze_homebox_rows_def)

lemma raised_None_iff:
  "raised (analyze_homebox_rows rt now h rows sd ed) = None \<longleftrightarrow>
   (\<exists>p s. sales_loop rt h sd ed rows [] [] = Inr (p, s))"
proof (cases "sales_loop rt h sd ed rows [] []")
  case (Inl e)
  then show ?thesis by (simp add: analyze_raises raised_def)
next
  case (Inr ps)
  then show ?thesis
    by (cases ps) (simp add: analyze_homebox_rows_def raised_def Let_def inventory_loop_eq)
qed

lemma report_fields:
  fixes rt now
  assumes S: "sales_loop rt h sd ed rows [] [] = Inr (p, s)"
  defines "res \<equiv> analyze_homebox_rows rt now h rows sd ed"
    and "iwc \<equiv> filter (\<lambda>item. f_pos (float_field rt (h item) ''HB.purchase_price'')) p"
    and "free \<equiv> filter (\<lambda>item. f_zero (float_field rt (h item) ''HB.purchase_price'')) p"
    and "ds \<equiv> days_to_sell_loop rt h p"
    and "h' \<equiv> annotate_stale rt now h rows"
  defines "rvn \<equiv> sum_field rt h ''HB.sold_price'' p"
    and "net \<equiv> num_sub rt (sum_field rt h ''HB.sold_price'' p)
                   (sum_field rt h ''HB.purchase_price'' iwc)"
    and "srv \<equiv> sum_field rt h ''HB.sold_price'' s"
    and "rois \<equiv> roi_loop rt h iwc"
    and "sorted_stale \<equiv>
           sort_key (\<lambda>x. - days_held_key (h' x)) (filter (\<lambda>r. stale rt now (h r)) rows)"
    and "losses \<equiv> filter (\<lambda>r. loss_item rt sd ed (h r)) rows"
    and "assets \<equiv> filter (\<lambda>r. location_contains rt (get_default (h r) ''HB.location'' (PyStr []))
                              ''Business Assets'') rows"
  shows "snd res = h'"
    and "report_of res ''product_revenue'' = Some (RNum rvn)"
    and "report_of res ''service_revenue'' = Some (RNum srv)"
    and "report_of res ''total_revenue'' = Some (RNum (num_add rt rvn srv))"
    and "report_of res ''net_profit'' = Some (RNum net)"
    and "report_of res ''total_profit'' = Some (RNum (num_add rt net srv))"
    and "report_of res ''avg_roi'' =
           Some (RNum (if rois \<noteq> [] then num_div rt (py_sum rt rois) (len rois) else NInt 0))"
    and "report_of res ''items_sold'' = Some (RNum (len p))"
    and "report_of res ''items_with_cost'' = Some (RRows iwc)"
    and "report_of res ''free_items_count'' = Some (RNum (len free))"
    and "report_of res ''avg_sale_price'' =
           Some (RNum (if p \<noteq> [] then num_div rt rvn (len p) else NInt 0))"
    and "report_of res ''avg_profit_per_item'' =
           Some (RNum (if p \<noteq> [] then num_div rt net (len p) else NInt 0))"
    and "report_of res ''business_assets_count'' = Some (RNum (len assets))"
    and "report_of res ''business_assets'' = Some (RRows assets)"
    and "report_of res ''loss_value'' = Some (RNum (sum_field rt h ''HB.purchase_price'' losses))"
    and "report_of res ''loss_count'' = Some (RNum (len losses))"
    and "report_of res ''total_active_count'' =
           Some (RNum (len (filter (\<lambda>r. active rt (h r)) rows)))"
    and "report_of res ''stale_inventory'' = Some (RRows sorted_stale)"
    and "report_of res ''stale_count'' = Some (RNum (len sorted_stale))"
    and "report_of res ''marketplace_count'' =
           Some (RNum (len (filter (\<lambda>r. on_marketplace (h r)) rows)))"
    and "report_of res ''avg_days_to_sell'' =
           Some (RNum (if ds \<noteq> [] then num_div rt (NInt (sum_list ds)) (len ds) else NInt 0))"
    and "report_of res ''quick_flips'' = Some (RNum (len (filter (\<lambda>d. d \<le> 14) ds)))"
    and "report_of res ''fastest_sale'' = Some (RNum (NInt (min_or_0 ds)))"
    and "report_of res ''slowest_sale'' = Some (RNum (NInt (max_or_0 ds)))"
    and "report_of res ''month_sales'' = Some (RRows p)"
    and "report_of res ''free_items'' = Some (RRows free)"
    and "report_of res ''other_income_items'' = Some (RRows s)"
    and "report_of res ''inventory_by_location'' = Some (RByLoc (inv_by_loc_loop rt h rows []))"
  unfolding res_def iwc_def free_def ds_def rvn_def net_def srv_def h'_def sorted_stale_def
    losses_def assets_def loss_item_def rois_def
  by (simp_all only: analyze_homebox_rows_def S inventory_loop_eq Let_def sum.case prod.case
        report_of_def fst_conv snd_conv dict_fields days_to_sell_annotate_stale
        inv_by_loc_annotate_stale on_marketplace_annotate_stale)

lemma num_eq_self: "num_eq a a \<longleftrightarrow> \<not> is_nan a"
  by (cases a) (simp_all add: is_nan_def)

lemma shop_returns:
  "raised (analyze_homebox_rows exact_runtime dec_1 shop [0, 1, 2, 3] nov_start nov_end) = None"
  by code_simp

lemma shop_values:
  "map (report_of (analyze_homebox_rows exact_runtime dec_1 shop [0, 1, 2, 3] nov_start nov_end))
     [''product_revenue'', ''service_revenue'', ''net_profit'', ''total_revenue'', ''total_profit'']
   = [Some (RNum (NFloat (Fin 350))), Some (RNum (NFloat (Fin 80))), Some (RNum (NFloat (Fin 250))),
      Some (RNum (NFloat (Fin 430))), Some (RNum (NFloat (Fin 330)))]"
  by code_simp

text \<open>
  C4. Whenever the engine returns a report, its total revenue is the very value of the
  product revenue plus the service revenue, and its total profit the very value of the net
  profit plus the service revenue. The comparison \<^verbatim>\<open>==\<close> of a total with that sum holds
  exactly when the total is not NaN: it fails on a report whose total is NaN, which a price
  reading \<^verbatim>\<open>nan\<close> produces.
\<close>

theorem C4_totals_are_sums_unless_nan:
  assumes "raised (analyze_homebox_rows rt now h rows sd ed) = None"
  shows "\<exists>product service net.
           report_of (analyze_homebox_rows rt now h rows sd ed) ''product_revenue''
             = Some (RNum product) \<and>
           report_of (analyze_homebox_rows rt now h rows sd ed) ''service_revenue''
             = Some (RNum service) \<and>
           report_of (analyze_homebox_rows rt now h rows sd ed) ''net_profit''
             = Some (RNum net) \<and>
           report_of (analyze_homebox_rows rt now h rows sd ed) ''total_revenue''
             = Some (RNum (num_add rt product service)) \<and>
           report_of (analyze_homebox_rows rt now h rows sd ed) ''total_profit''
             = Some (RNum (num_add rt net service)) \<and>
           (num_eq (num_add rt product service) (num_add rt product service)
              \<longleftrightarrow> \<not> is_nan (num_add rt product service)) \<and>
           (num_eq (num_add rt net service) (num_add rt net service)
              \<longleftrightarrow> \<not> is_nan (num_add rt net service))"
proof -
  from assms obtain p s where S: "sales_loop rt h sd ed rows [] [] = Inr (p, s)"
    by (auto simp: raised_None_iff)
  show ?thesis
    by (intro exI conjI num_eq_self) (rule report_fields [OF S])+
qed

theorem C4_totals_are_sums_unless_nan_witness:
  "\<exists>product service net.
     report_of (analyze_homebox_rows exact_runtime dec_1 shop [0, 1, 2, 3] nov_start nov_end)
       ''product_revenue'' = Some (RNum product) \<and>
     report_of (analyze_homebox_rows exact_runtime dec_1 shop [0, 1, 2, 3] nov_start nov_end)
       ''service_revenue'' = Some (RNum service) \<and>
     report_of (analyze_homebox_rows exact_runtime dec_1 shop [0, 1, 2, 3] nov_start nov_end)
       ''net_profit'' = Some (RNum net) \<and>
     report_of (analyze_homebox_rows exact_runtime dec_1 shop [0, 1, 2, 3] nov_start nov_end)
       ''total_revenue'' = Some (RNum (num_add exact_runtime product service)) \<and>
     report_of (analyze_homebox_rows exact_runtime dec_1 shop [0, 1, 2, 3] nov_start nov_end)
       ''total_profit'' = Some (RNum (num_add exact_runtime net service)) \<and>
     (num_eq (num_add exact_runtime product service) (num_add exact_runtime product service)
        \<longleftrightarrow> \<not> is_nan (num_add exact_runtime product service)) \<and>
     (num_eq (num_add exact_runtime net service) (num_add exact_runtime net service)
        \<longleftrightarrow> \<not> is_nan (num_add exact_runtime net service))"
  by (rule C4_totals_are_sums_unless_nan [OF shop_returns])

text \<open>
  With a product sale whose price reads \<^verbatim>\<open>nan\<close> and a service sale of 80, the report is
  returned, both totals are NaN, and neither is \<^verbatim>\<open>==\<close> to the sum it was computed as.
\<close>

theorem C4_nan_counterexample:
  "raised (analyze_homebox_rows exact_runtime dec_1 nan_shop [0, 1] nov_start nov_end) = None \<and>
   map (report_of (analyze_homebox_rows exact_runtime dec_1 nan_shop [0, 1] nov_start nov_end))
     [''product_revenue'', ''service_revenue'', ''net_profit'', ''total_revenue'', ''total_profit'']
   = [Some (RNum (NFloat NaN)), Some (RNum (NFloat (Fin 80))), Some (RNum (NFloat NaN)),
      Some (RNum (NFloat NaN)), Some (RNum (NFloat NaN))] \<and>
   \<not> num_eq (NFloat NaN) (num_add exact_runtime (NFloat NaN) (NFloat (Fin 80)))"
  by code_simp

subsection \<open>Stores that differ in \<^verbatim>\<open>HB.archived\<close> only\<close>

lemma set_archived_other: "k \<noteq> ''HB.archived'' \<Longrightarrow> set_archived flag h a k = h a k"
  by (simp add: set_archived_def)

lemma get_set_archived: "k \<noteq> ''HB.archived'' \<Longrightarrow> get (set_archived flag h a) k = get (h a) k"
  by (simp add: get_def set_archived_other)

lemma get_default_set_archived:
  "k \<noteq> ''HB.archived'' \<Longrightarrow> get_default (set_archived flag h a) k d = get_default (h a) k d"
  by (simp add: get_default_def set_archived_other)

lemma float_field_set_archived:
  "k \<noteq> ''HB.archived'' \<Longrightarrow> float_field rt (set_archived flag h a) k = float_field rt (h a) k"
  by (simp add: float_field_def get_default_set_archived)

lemma sum_field_set_archived:
  "k \<noteq> ''HB.archived'' \<Longrightarrow> sum_field rt (set_archived flag h) k xs = sum_field rt h k xs"
  by (simp add: sum_field_def float_field_set_archived)

lemma sales_loop_set_archived:
  "sales_loop rt (set_archived flag h) sd ed rows P S = sales_loop rt h sd ed rows P S"
  by (rule sales_loop_cong) (simp add: set_archived_other)

lemma loss_item_set_archived:
  "loss_item rt sd ed (set_archived flag h a) = loss_item rt sd ed (h a)"
  by (simp add: loss_item_def date_in_range_def get_set_archived get_default_set_archived)

lemma raised_set_archived:
  "raised (analyze_homebox_rows rt now (set_archived flag h) rows sd ed)
     = raised (analyze_homebox_rows rt now h rows sd ed)"
proof (cases "sales_loop rt h sd ed rows [] []")
  case (Inl e)
  then show ?thesis
    by (simp add: analyze_raises sales_loop_set_archived raised_def)
next
  case (Inr ps)
  then have "raised (analyze_homebox_rows rt now h rows sd ed) = None"
    by (cases ps) (auto simp: raised_None_iff)
  moreover from Inr have "raised (analyze_homebox_rows rt now (set_archived flag h) rows sd ed) = None"
    by (cases ps) (auto simp: raised_None_iff sales_loop_set_archived)
  ultimately show ?thesis by simp
qed

lemma report_of_raised:
  "sales_loop rt h sd ed rows [] [] = Inl e \<Longrightarrow>
   report_of (analyze_homebox_rows rt now h rows sd ed) k = None"
  by (simp add: analyze_raises report_of_def)

text \<open>
  C2. The lists of sold and disposed items do not depend on \<^verbatim>\<open>HB.archived\<close>: replacing
  or removing the \<^verbatim>\<open>HB.archived\<close> entry of any rows changes neither whether the call raises,
  nor \<^verbatim>\<open>month_sales\<close>, \<^verbatim>\<open>other_income_items\<close>, the count and value of the loss items, nor
  the product and service revenue.
\<close>

theorem C2_sales_do_not_read_archived:
  "raised (analyze_homebox_rows rt now (set_archived flag h) rows sd ed)
     = raised (analyze_homebox_rows rt now h rows sd ed) \<and>
   report_of (analyze_homebox_rows rt now (set_archived flag h) rows sd ed) ''month_sales''
     = report_of (analyze_homebox_rows rt now h rows sd ed) ''month_sales'' \<and>
   report_of (analyze_homebox_rows rt now (set_archived flag h) rows sd ed) ''other_income_items''
     = report_of (analyze_homebox_rows rt now h rows sd ed) ''other_income_items'' \<and>
   report_of (analyze_homebox_rows rt now (set_archived flag h) rows sd ed) ''loss_count''
     = report_of (analyze_homebox_rows rt now h rows sd ed) ''loss_count'' \<and>
   report_of (analyze_homebox_rows rt now (set_archived flag h) rows sd ed) ''loss_value''
     = report_of (analyze_homebox_rows rt now h rows sd ed) ''loss_value'' \<and>
   report_of (analyze_homebox_rows rt now (set_archived flag h) rows sd ed) ''product_revenue''
     = report_of (analyze_homebox_rows rt now h rows sd ed) ''product_revenue'' \<and>
   report_of (analyze_homebox_rows rt now (set_archived flag h) rows sd ed) ''service_revenue''
     = report_of (analyze_homebox_rows rt now h rows sd ed) ''service_revenue''"
proof (cases "sales_loop rt h sd ed rows [] []")
  case (Inl e)
  then have "sales_loop rt (set_archived flag h) sd ed rows [] [] = Inl e"
    by (simp add: sales_loop_set_archived)
  with Inl show ?thesis
    by (simp add: report_of_raised raised_set_archived)
next
  case (Inr ps)
  obtain p s where ps: "ps = (p, s)" by (cases ps)
  from Inr ps have S: "sales_loop rt h sd ed rows [] [] = Inr (p, s)" by simp
  then have S': "sales_loop rt (set_archived flag h) sd ed rows [] [] = Inr (p, s)"
    by (simp add: sales_loop_set_archived)
  show ?thesis
    by (simp add: report_fields [OF S] report_fields [OF S'] raised_set_archived
          sum_field_set_archived loss_item_set_archived)
qed

text \<open>
  Three items whose \<^verbatim>\<open>archived\<close> is \<^verbatim>\<open>false\<close> and whose sold date is in November: the
  first is in \<^verbatim>\<open>month_sales\<close>, the second in \<^verbatim>\<open>other_income_items\<close>, the third is the one
  loss item, of value 20.
\<close>

theorem C2_unarchived_sales_counterexample:
  "[get (unarchived_sales 0) ''HB.archived'', get (unarchived_sales 1) ''HB.archived'',
    get (unarchived_sales 2) ''HB.archived'']
     = [PyStr (u ''false''), PyStr (u ''false''), PyStr (u ''false'')] \<and>
   map (report_of
          (analyze_homebox_rows exact_runtime dec_1 unarchived_sales [0, 1, 2] nov_start nov_end))
     [''month_sales'', ''other_income_items'', ''loss_count'', ''loss_value'']
     = [Some (RRows [0]), Some (RRows [1]), Some (RNum (NInt 1)), Some (RNum (NFloat (Fin 20)))]"
  by code_simp

subsection \<open>What the call writes into the rows\<close>

lemma annotated_days_held:
  "stale rt now r \<Longrightarrow> \<exists>d. annotated rt now r ''days_held'' = Some (PyInt d) \<and> 90 < d"
  by (auto simp: stale_def annotated_def split: option.splits)

lemma store_after_call:
  "snd (analyze_homebox_rows rt now h rows sd ed) =
     (if raised (analyze_homebox_rows rt now h rows sd ed) = None
      then annotate_stale rt now h rows else h)"
proof (cases "sales_loop rt h sd ed rows [] []")
  case (Inl e)
  then show ?thesis by (simp add: analyze_raises raised_def)
next
  case (Inr ps)
  obtain p s where "ps = (p, s)" by (cases ps)
  with Inr have S: "sales_loop rt h sd ed rows [] [] = Inr (p, s)" by simp
  then have "raised (analyze_homebox_rows rt now h rows sd ed) = None"
    by (auto simp: raised_None_iff)
  with report_fields(1) [OF S] show ?thesis by simp
qed

text \<open>
  C3. The call writes into the caller's rows, and nothing but this: when it returns a
  report, every row of the input that is stale has its \<^verbatim>\<open>days_held\<close> entry set to the
  days held, a number above 90; every other entry of every row is as it was. The list
  \<^verbatim>\<open>stale_inventory\<close> of the report holds these very rows of the caller, not copies.
\<close>

theorem C3_writes_days_held_into_the_rows:
  assumes "raised (analyze_homebox_rows rt now h rows sd ed) = None"
  shows "(\<forall>a k. snd (analyze_homebox_rows rt now h rows sd ed) a k =
            (if a \<in> set rows \<and> stale rt now (h a) \<and> k = ''days_held''
             then annotated rt now (h a) ''days_held'' else h a k)) \<and>
         (\<forall>a. a \<in> set rows \<and> stale rt now (h a) \<longrightarrow>
            (\<exists>d. snd (analyze_homebox_rows rt now h rows sd ed) a ''days_held'' = Some (PyInt d)
                 \<and> 90 < d)) \<and>
         (\<exists>xs. report_of (analyze_homebox_rows rt now h rows sd ed) ''stale_inventory''
                  = Some (RRows xs) \<and>
               set xs = {a \<in> set rows. stale rt now (h a)})"
proof -
  from assms obtain p s where S: "sales_loop rt h sd ed rows [] [] = Inr (p, s)"
    by (auto simp: raised_None_iff)
  have st: "snd (analyze_homebox_rows rt now h rows sd ed) = annotate_stale rt now h rows"
    by (rule report_fields(1) [OF S])
  have 1: "annotate_stale rt now h rows a k =
      (if a \<in> set rows \<and> stale rt now (h a) \<and> k = ''days_held''
       then annotated rt now (h a) ''days_held'' else h a k)" for a k
    by (simp add: annotate_stale_def annotated_other)
  have 2: "\<exists>d. annotate_stale rt now h rows a ''days_held'' = Some (PyInt d) \<and> 90 < d"
    if "a \<in> set rows \<and> stale rt now (h a)" for a
    using that annotated_days_held [of rt now "h a"] by (simp add: annotate_stale_def)
  have 3: "\<exists>xs. report_of (analyze_homebox_rows rt now h rows sd ed) ''stale_inventory''
                  = Some (RRows xs) \<and> set xs = {a \<in> set rows. stale rt now (h a)}"
    by (simp add: report_fields [OF S])
  show ?thesis
    unfolding st using 1 2 3 unfolding st by blast
qed

lemma shop_stale_row: "2 \<in> set [0, 1, 2, 3::nat] \<and> stale exact_runtime dec_1 (shop 2)"
  by code_simp

theorem C3_writes_days_held_into_the_rows_witness:
  "\<exists>d. snd (analyze_homebox_rows exact_runtime dec_1 shop [0, 1, 2, 3] nov_start nov_end) 2
          ''days_held'' = Some (PyInt d) \<and> 90 < d"
  using C3_writes_days_held_into_the_rows [OF shop_returns] shop_stale_row by blast

text \<open>
  The item of the catalogue bought on 1 January has no \<^verbatim>\<open>days_held\<close> before the call and
  has 334 after it, in the caller's own row, which is the row the report lists as stale.
\<close>

theorem C3_days_held_counterexample:
  "shop 2 ''days_held'' = None \<and>
   snd (analyze_homebox_rows exact_runtime dec_1 shop [0, 1, 2, 3] nov_start nov_end) 2 ''days_held''
     = Some (PyInt 334) \<and>
   report_of (analyze_homebox_rows exact_runtime dec_1 shop [0, 1, 2, 3] nov_start nov_end)
     ''stale_inventory'' = Some (RRows [2])"
  by code_simp

subsection \<open>The evaluations at the inputs on which the code departs from its own intent\<close>

text \<open>
  C1. A sale of the period whose location is \<^verbatim>\<open>Labor\<close> and which has no labels: its
  lowered location contains \<^verbatim>\<open>labor\<close>, yet the engine lists it in \<^verbatim>\<open>month_sales\<close> and not
  in \<^verbatim>\<open>other_income_items\<close>, and its price is product revenue, not service revenue.
\<close>

theorem C1_labor_location_is_not_a_service:
  "date_in_range exact_runtime nov_start nov_end (labor_sale 0) ''HB.sold_time'' \<and>
   contains (lowered exact_runtime (labor_sale 0) ''HB.location'') (u ''labor'') \<and>
   map (report_of (analyze_homebox_rows exact_runtime dec_1 labor_sale [0] nov_start nov_end))
     [''month_sales'', ''other_income_items'', ''product_revenue'', ''service_revenue'']
     = [Some (RRows [0]), Some (RRows []), Some (RNum (NFloat (Fin 200))), Some (RNum (NInt 0))]"
  by code_simp

text \<open>
  C5. On the catalogue of four items the key \<^verbatim>\<open>items_with_cost\<close> of the report holds the
  list of the one sale with a cost, not its count: the count the engine computes for this
  key is overwritten by the list, which the same display stores under the same key.
\<close>

theorem C5_items_with_cost_is_the_list:
  "map (report_of (analyze_homebox_rows exact_runtime dec_1 shop [0, 1, 2, 3] nov_start nov_end))
     [''items_with_cost'', ''items_sold'', ''month_sales'']
     = [Some (RRows [0]), Some (RNum (NInt 2)), Some (RRows [0, 1])]"
  by code_simp

text \<open>
  C8. A sale of the period whose labels are \<^verbatim>\<open>None\<close>: the call raises
  \<^verbatim>\<open>AttributeError\<close> and returns no report.
\<close>

theorem C8_none_labels_raises:
  "raised (analyze_homebox_rows exact_runtime dec_1 none_labels [0] nov_start nov_end)
     = Some AttributeError"
  by code_simp

subsection \<open>The table by location\<close>

lemma inv_count_inv_add:
  "inv_count (inv_add rt loc v m) loc' = inv_count m loc' + (if loc' = loc then 1 else 0)"
  by (induction m) auto

lemma inv_count_loop:
  "inv_count (inv_by_loc_loop rt h rows m) loc =
     inv_count m loc +
     int (length (filter (\<lambda>r. get (h r) ''HB.archived'' \<noteq> PyStr (u ''true'') \<and>
                               get_default (h r) ''HB.location'' (PyStr (u ''Unknown'')) = loc) rows))"
  by (induction rows arbitrary: m) (auto simp: inv_count_inv_add)

text \<open>
  C10. Whenever the engine returns a report, an item counts as archived exactly when its
  \<^verbatim>\<open>HB.archived\<close> is the string \<^verbatim>\<open>true\<close>, and as insured exactly when its \<^verbatim>\<open>HB.insured\<close> is
  the string \<^verbatim>\<open>true\<close>: the active count is the number of rows whose \<^verbatim>\<open>HB.archived\<close> is
  anything else (or absent) and that are in no special bucket, the marketplace count is the
  number of rows whose \<^verbatim>\<open>HB.insured\<close> is \<^verbatim>\<open>true\<close> and whose \<^verbatim>\<open>HB.archived\<close> is anything else,
  and the table by location counts, for each location, the rows there whose \<^verbatim>\<open>HB.archived\<close>
  is anything else.
\<close>

theorem C10_only_the_string_true_counts:
  assumes "raised (analyze_homebox_rows rt now h rows sd ed) = None"
  shows "report_of (analyze_homebox_rows rt now h rows sd ed) ''total_active_count''
           = Some (RNum (len (filter (\<lambda>r. get (h r) ''HB.archived'' \<noteq> PyStr (u ''true'')
                                           \<and> \<not> special_bucket rt (h r)) rows))) \<and>
         report_of (analyze_homebox_rows rt now h rows sd ed) ''marketplace_count''
           = Some (RNum (len (filter (\<lambda>r. get (h r) ''HB.insured'' = PyStr (u ''true'')
                                           \<and> get (h r) ''HB.archived'' \<noteq> PyStr (u ''true'')) rows))) \<and>
         (\<exists>table. report_of (analyze_homebox_rows rt now h rows sd ed) ''inventory_by_location''
                      = Some (RByLoc table) \<and>
                   (\<forall>loc. inv_count table loc =
                      int (length (filter (\<lambda>r. get (h r) ''HB.archived'' \<noteq> PyStr (u ''true'') \<and>
                             get_default (h r) ''HB.location'' (PyStr (u ''Unknown'')) = loc) rows))))"
proof -
  from assms obtain p s where S: "sales_loop rt h sd ed rows [] [] = Inr (p, s)"
    by (auto simp: raised_None_iff)
  have a: "active rt = (\<lambda>r. get r ''HB.archived'' \<noteq> PyStr (u ''true'') \<and> \<not> special_bucket rt r)"
    by (simp add: fun_eq_iff active_def)
  have m: "on_marketplace = (\<lambda>r. get r ''HB.insured'' = PyStr (u ''true'')
                                  \<and> get r ''HB.archived'' \<noteq> PyStr (u ''true''))"
    by (simp add: fun_eq_iff on_marketplace_def)
  show ?thesis
    using report_fields(17,20,28) [OF S, of now]
    by (simp add: a m inv_count_loop)
qed

lemma flags_returns:
  "raised (analyze_homebox_rows exact_runtime dec_1 flags [0, 1, 2, 3, 4] nov_start nov_end) = None"
  by code_simp

theorem C10_only_the_string_true_counts_witness:
  "report_of (analyze_homebox_rows exact_runtime dec_1 flags [0, 1, 2, 3, 4] nov_start nov_end)
     ''total_active_count''
     = Some (RNum (len (filter (\<lambda>r. get (flags r) ''HB.archived'' \<noteq> PyStr (u ''true'')
                                     \<and> \<not> special_bucket exact_runtime (flags r)) [0, 1, 2, 3, 4]))) \<and>
   report_of (analyze_homebox_rows exact_runtime dec_1 flags [0, 1, 2, 3, 4] nov_start nov_end)
     ''marketplace_count''
     = Some (RNum (len (filter (\<lambda>r. get (flags r) ''HB.insured'' = PyStr (u ''true'')
                                     \<and> get (flags r) ''HB.archived'' \<noteq> PyStr (u ''true''))
                          [0, 1, 2, 3, 4]))) \<and>
   (\<exists>table. report_of
               (analyze_homebox_rows exact_runtime dec_1 flags [0, 1, 2, 3, 4] nov_start nov_end)
               ''inventory_by_location'' = Some (RByLoc table) \<and>
             (\<forall>loc. inv_count table loc =
                int (length (filter (\<lambda>r. get (flags r) ''HB.archived'' \<noteq> PyStr (u ''true'') \<and>
                       get_default (flags r) ''HB.location'' (PyStr (u ''Unknown'')) = loc)
                         [0, 1, 2, 3, 4]))))"
  by (rule C10_only_the_string_true_counts [OF flags_returns])

text \<open>
  Of five items on one shelf whose \<^verbatim>\<open>HB.archived\<close> is \<^verbatim>\<open>True\<close>, \<^verbatim>\<open>1\<close>, \<^verbatim>\<open>yes\<close>, absent and
  \<^verbatim>\<open>true\<close>, the first four are active and counted on the shelf; of the three that say they
  are insured, only the first, insured \<^verbatim>\<open>true\<close> and not archived, is on the marketplace.
\<close>

lemma flags_counts:
  "map (report_of
          (analyze_homebox_rows exact_runtime dec_1 flags [0, 1, 2, 3, 4] nov_start nov_end))
     [''total_active_count'', ''marketplace_count'', ''inventory_by_location'']
   = [Some (RNum (NInt 4)), Some (RNum (NInt 1)),
      Some (RByLoc [(PyStr (u ''Shelf''), 4, NFloat (Fin 0))])]"
  by code_simp

subsection \<open>Averages over nothing\<close>

text \<open>
  C6. Whenever the engine returns a report: if no sale has a cost, \<^verbatim>\<open>avg_roi\<close> is the
  int 0; if there is no product sale, \<^verbatim>\<open>avg_sale_price\<close> and \<^verbatim>\<open>avg_profit_per_item\<close> are
  the int 0; and if no product sale has both dates, \<^verbatim>\<open>avg_days_to_sell\<close>, \<^verbatim>\<open>fastest_sale\<close>
  and \<^verbatim>\<open>slowest_sale\<close> are the int 0. The int 0 is not NaN.
\<close>

theorem C6_averages_over_nothing_are_zero:
  assumes "raised (analyze_homebox_rows rt now h rows sd ed) = None"
  shows "\<exists>month_sales items_with_cost.
           report_of (analyze_homebox_rows rt now h rows sd ed) ''month_sales''
             = Some (RRows month_sales) \<and>
           report_of (analyze_homebox_rows rt now h rows sd ed) ''items_with_cost''
             = Some (RRows items_with_cost) \<and>
           (items_with_cost = [] \<longrightarrow>
              report_of (analyze_homebox_rows rt now h rows sd ed) ''avg_roi''
                = Some (RNum (NInt 0))) \<and>
           (month_sales = [] \<longrightarrow>
              report_of (analyze_homebox_rows rt now h rows sd ed) ''avg_sale_price''
                = Some (RNum (NInt 0)) \<and>
              report_of (analyze_homebox_rows rt now h rows sd ed) ''avg_profit_per_item''
                = Some (RNum (NInt 0))) \<and>
           (days_to_sell_loop rt h month_sales = [] \<longrightarrow>
              report_of (analyze_homebox_rows rt now h rows sd ed) ''avg_days_to_sell''
                = Some (RNum (NInt 0)) \<and>
              report_of (analyze_homebox_rows rt now h rows sd ed) ''fastest_sale''
                = Some (RNum (NInt 0)) \<and>
              report_of (analyze_homebox_rows rt now h rows sd ed) ''slowest_sale''
                = Some (RNum (NInt 0))) \<and>
           \<not> is_nan (NInt 0)"
proof -
  from assms obtain p s where S: "sales_loop rt h sd ed rows [] [] = Inr (p, s)"
    by (auto simp: raised_None_iff)
  show ?thesis
    by (rule exI [of _ p],
        rule exI [of _ "filter (\<lambda>item. f_pos (float_field rt (h item) ''HB.purchase_price'')) p"])
       (simp add: report_fields [OF S] min_or_0_def max_or_0_def is_nan_def)
qed

lemma stock_only_returns:
  "raised (analyze_homebox_rows exact_runtime dec_1 shop [2] nov_start nov_end) = None"
  by code_simp

lemma stock_only_lists:
  "report_of (analyze_homebox_rows exact_runtime dec_1 shop [2] nov_start nov_end)
     ''month_sales'' = Some (RRows []) \<and>
   report_of (analyze_homebox_rows exact_runtime dec_1 shop [2] nov_start nov_end)
     ''items_with_cost'' = Some (RRows [])"
  by code_simp

text \<open>An input of one item that was never sold: all six fields are the int 0.\<close>

theorem C6_averages_over_nothing_are_zero_witness:
  "report_of (analyze_homebox_rows exact_runtime dec_1 shop [2] nov_start nov_end)
     ''avg_roi'' = Some (RNum (NInt 0)) \<and>
   report_of (analyze_homebox_rows exact_runtime dec_1 shop [2] nov_start nov_end)
     ''avg_sale_price'' = Some (RNum (NInt 0)) \<and>
   report_of (analyze_homebox_rows exact_runtime dec_1 shop [2] nov_start nov_end)
     ''avg_profit_per_item'' = Some (RNum (NInt 0)) \<and>
   report_of (analyze_homebox_rows exact_runtime dec_1 shop [2] nov_start nov_end)
     ''avg_days_to_sell'' = Some (RNum (NInt 0)) \<and>
   report_of (analyze_homebox_rows exact_runtime dec_1 shop [2] nov_start nov_end)
     ''fastest_sale'' = Some (RNum (NInt 0)) \<and>
   report_of (analyze_homebox_rows exact_runtime dec_1 shop [2] nov_start nov_end)
     ''slowest_sale'' = Some (RNum (NInt 0))"
  using C6_averages_over_nothing_are_zero [OF stock_only_returns] stock_only_lists
  by auto

subsection \<open>Dates and their ordinals\<close>

lemma div_step:
  assumes k: "0 < (k::int)"
  shows "y div k = (y - 1) div k + (if y mod k = 0 then 1 else 0)"
proof (cases "y mod k = 0")
  case True
  then obtain q where q: "y = k * q" by (auto simp: mod_eq_0_iff_dvd)
  have "k * q - 1 = k * (q - 1) + (k - 1)" by (simp add: algebra_simps)
  then have "(k * q - 1) div k = q - 1"
    by (rule int_div_pos_eq) (use k in simp_all)
  with True q k show ?thesis by simp
next
  case False
  have m: "0 \<le> y mod k" "y mod k < k" using k by simp_all
  with False have m1: "1 \<le> y mod k" by simp
  have "y - 1 = k * (y div k) + (y mod k - 1)" by (simp add: algebra_simps)
  then have "(y - 1) div k = y div k"
    by (rule int_div_pos_eq) (use m m1 in simp_all)
  with False show ?thesis by simp
qed

lemma mod_400_100: "(y::int) mod 400 = 0 \<Longrightarrow> y mod 100 = 0"
proof -
  assume "y mod 400 = 0"
  then have "400 dvd y" by (simp add: mod_eq_0_iff_dvd)
  moreover have "(100::int) dvd 400" by simp
  ultimately have "100 dvd y" by (rule dvd_trans [rotated])
  then show ?thesis by (simp add: mod_eq_0_iff_dvd)
qed

lemma mod_100_4: "(y::int) mod 100 = 0 \<Longrightarrow> y mod 4 = 0"
proof -
  assume "y mod 100 = 0"
  then have "100 dvd y" by (simp add: mod_eq_0_iff_dvd)
  moreover have "(4::int) dvd 100" by simp
  ultimately have "4 dvd y" by (rule dvd_trans [rotated])
  then show ?thesis by (simp add: mod_eq_0_iff_dvd)
qed

lemma days_before_year_Suc:
  "days_before_year (y + 1) = days_before_year y + (if is_leap y then 366 else 365)"
proof -
  define A where "A = (y - 1) div 4"
  define B where "B = (y - 1) div 100"
  define C where "C = (y - 1) div 400"
  have d: "y div 4 = A + (if y mod 4 = 0 then 1 else 0)"
    "y div 100 = B + (if y mod 100 = 0 then 1 else 0)"
    "y div 400 = C + (if y mod 400 = 0 then 1 else 0)"
    unfolding A_def B_def C_def by (rule div_step, simp)+
  have e: "days_before_year (y + 1) = y * 365 + y div 4 - y div 100 + y div 400"
    by (simp add: days_before_year_def)
  have f: "days_before_year y = (y - 1) * 365 + A - B + C"
    by (simp add: days_before_year_def Let_def A_def B_def C_def)
  show ?thesis
  proof (cases "y mod 4 = 0")
    case False
    with mod_100_4 [of y] mod_400_100 [of y] have "y mod 100 \<noteq> 0" "y mod 400 \<noteq> 0" by auto
    with False show ?thesis unfolding e f d is_leap_def by (simp add: algebra_simps)
  next
    case True
    show ?thesis
    proof (cases "y mod 100 = 0")
      case False
      with mod_400_100 [of y] have "y mod 400 \<noteq> 0" by auto
      with True False show ?thesis unfolding e f d is_leap_def by (simp add: algebra_simps)
    next
      case h: True
      show ?thesis
      proof (cases "y mod 400 = 0")
        case True
        with h \<open>y mod 4 = 0\<close> show ?thesis unfolding e f d is_leap_def by (simp add: algebra_simps)
      next
        case False
        with h \<open>y mod 4 = 0\<close> show ?thesis unfolding e f d is_leap_def by (simp add: algebra_simps)
      qed
    qed
  qed
qed

lemma days_before_year_mono_aux:
  "0 \<le> n \<Longrightarrow> days_before_year y + 365 * n \<le> days_before_year (y + n)"
proof (induction n rule: int_ge_induct)
  case base
  then show ?case by simp
next
  case (step i)
  have "days_before_year (y + (i + 1)) = days_before_year ((y + i) + 1)"
    by (simp add: add.assoc)
  also have "\<dots> \<ge> days_before_year (y + i) + 365"
    by (simp add: days_before_year_Suc)
  finally have "days_before_year (y + i) + 365 \<le> days_before_year (y + (i + 1))" .
  with step show ?case by (simp add: distrib_left)
qed

lemma days_before_year_next_le:
  assumes "y1 < y2"
  shows "days_before_year (y1 + 1) \<le> days_before_year y2"
  using days_before_year_mono_aux [of "y2 - (y1 + 1)" "y1 + 1"] assms by simp

lemma month_cases:
  assumes "1 \<le> (m::int)" "m \<le> 12"
  obtains "m = 1" | "m = 2" | "m = 3" | "m = 4" | "m = 5" | "m = 6"
    | "m = 7" | "m = 8" | "m = 9" | "m = 10" | "m = 11" | "m = 12"
proof -
  from assms have "m = 1 \<or> m = 2 \<or> m = 3 \<or> m = 4 \<or> m = 5 \<or> m = 6
      \<or> m = 7 \<or> m = 8 \<or> m = 9 \<or> m = 10 \<or> m = 11 \<or> m = 12"
    by arith
  with that show thesis by blast
qed

lemma days_before_month_next:
  assumes "1 \<le> m" "m < 12"
  shows "days_before_month y (m + 1) = days_before_month y m + days_in_month y m"
proof -
  from assms have "1 \<le> m" "m \<le> 12" by simp_all
  then show ?thesis
    using assms(2)
    by (cases m rule: month_cases) (simp_all add: days_before_month_def days_in_month_def)
qed

lemma days_in_month_pos:
  assumes "1 \<le> m" "m \<le> 12"
  shows "28 \<le> days_in_month y m"
  using assms by (cases m rule: month_cases) (simp_all add: days_in_month_def)

lemma days_before_month_mono:
  assumes "1 \<le> m1" "m1 < m2" "m2 \<le> 12"
  shows "days_before_month y m1 + days_in_month y m1 \<le> days_before_month y m2"
proof -
  have "0 \<le> n \<Longrightarrow> m1 + 1 + n \<le> 12 \<Longrightarrow>
      days_before_month y m1 + days_in_month y m1 \<le> days_before_month y (m1 + 1 + n)" for n
  proof (induction n rule: int_ge_induct)
    case base
    then show ?case using assms(1) by (simp add: days_before_month_next)
  next
    case (step i)
    have "days_before_month y (m1 + 1 + (i + 1)) = days_before_month y ((m1 + 1 + i) + 1)"
      by (simp add: add.assoc)
    also have "\<dots> = days_before_month y (m1 + 1 + i) + days_in_month y (m1 + 1 + i)"
      using step assms(1) by (intro days_before_month_next) simp_all
    also have "\<dots> \<ge> days_before_month y (m1 + 1 + i)"
      using days_in_month_pos [of "m1 + 1 + i" y] step assms(1) by simp
    finally show ?case using step by simp
  qed
  from this [of "m2 - (m1 + 1)"] assms show ?thesis by simp
qed

lemma days_before_month_nonneg:
  assumes "1 \<le> m" "m \<le> 12"
  shows "0 \<le> days_before_month y m"
  using assms by (cases m rule: month_cases) (simp_all add: days_before_month_def)

lemma day_of_year_le:
  assumes "1 \<le> m" "m \<le> 12" "d \<le> days_in_month y m"
  shows "days_before_month y m + d \<le> (if is_leap y then 366 else 365)"
  using assms
  by (cases m rule: month_cases)
     (simp_all add: days_before_month_def days_in_month_def split: if_splits)

text \<open>A date strictly before another, as triples, has a strictly smaller ordinal.\<close>

lemma toordinal_strict_mono:
  assumes a: "valid_date a" and b: "valid_date b"
    and lt: "d_year a < d_year b \<or>
      (d_year a = d_year b \<and>
        (d_month a < d_month b \<or> (d_month a = d_month b \<and> d_day a < d_day b)))"
  shows "toordinal a < toordinal b"
proof -
  from a have va: "1 \<le> d_month a" "d_month a \<le> 12" "1 \<le> d_day a"
    "d_day a \<le> days_in_month (d_year a) (d_month a)"
    by (simp_all add: valid_date_def)
  from b have vb: "1 \<le> d_month b" "d_month b \<le> 12" "1 \<le> d_day b"
    "d_day b \<le> days_in_month (d_year b) (d_month b)"
    by (simp_all add: valid_date_def)
  consider (year) "d_year a < d_year b"
    | (month) "d_year a = d_year b" "d_month a < d_month b"
    | (day) "d_year a = d_year b" "d_month a = d_month b" "d_day a < d_day b"
    using lt by blast
  then show ?thesis
  proof cases
    case year
    have "toordinal a \<le> days_before_year (d_year a + 1)"
      using day_of_year_le [OF va(1,2,4)]
      by (simp add: toordinal_def days_before_year_Suc split: if_splits)
    also have "\<dots> \<le> days_before_year (d_year b)"
      by (rule days_before_year_next_le [OF year])
    also have "\<dots> < toordinal b"
      using days_before_month_nonneg [OF vb(1,2), of "d_year b"] vb(3)
      by (simp add: toordinal_def)
    finally show ?thesis .
  next
    case month
    have "days_before_month (d_year a) (d_month a) + d_day a
        \<le> days_before_month (d_year a) (d_month a) + days_in_month (d_year a) (d_month a)"
      using va(4) by simp
    also have "\<dots> \<le> days_before_month (d_year a) (d_month b)"
      by (rule days_before_month_mono [OF va(1) month(2) vb(2)])
    finally show ?thesis using vb(3) month(1) by (simp add: toordinal_def)
  next
    case day
    then show ?thesis by (simp add: toordinal_def)
  qed
qed

lemma date_le_iff_toordinal:
  assumes a: "valid_date a" and b: "valid_date b"
  shows "date_le a b \<longleftrightarrow> toordinal a \<le> toordinal b"
proof
  assume le: "date_le a b"
  show "toordinal a \<le> toordinal b"
  proof (cases "d_year a = d_year b \<and> d_month a = d_month b \<and> d_day a = d_day b")
    case True
    then show ?thesis by (simp add: toordinal_def)
  next
    case False
    with le have "d_year a < d_year b \<or>
      (d_year a = d_year b \<and>
        (d_month a < d_month b \<or> (d_month a = d_month b \<and> d_day a < d_day b)))"
      by (auto simp: date_le_def)
    from toordinal_strict_mono [OF a b this] show ?thesis by simp
  qed
next
  assume le: "toordinal a \<le> toordinal b"
  show "date_le a b"
  proof (rule ccontr)
    assume "\<not> date_le a b"
    then have "d_year b < d_year a \<or>
      (d_year b = d_year a \<and>
        (d_month b < d_month a \<or> (d_month b = d_month a \<and> d_day b < d_day a)))"
      by (auto simp: date_le_def)
    from toordinal_strict_mono [OF b a this] le show False by simp
  qed
qed

subsection \<open>What \<^verbatim>\<open>parse_date\<close> returns\<close>

lemma strptime_ymd_valid:
  "strptime_ymd rt s = Some t \<Longrightarrow> valid_date (dt_date t) \<and> dt_us t = 0"
  by (auto simp: strptime_ymd_def Let_def split: option.splits prod.splits if_splits)

lemma parse_date_valid:
  "parse_date rt v = Some t \<Longrightarrow> valid_date (dt_date t) \<and> dt_us t = 0"
  by (auto simp: parse_date_def dest: strptime_ymd_valid split: if_splits)


text \<open>The time of day after a \<^verbatim>\<open>T\<close> is dropped before the date is read.\<close>

lemma parse_date_time_suffix:
  assumes "ch CHR ''T'' \<notin> set s"
  shows "parse_date rt (PyStr (s @ ch CHR ''T'' # t)) = parse_date rt (PyStr s)"
proof -
  have tw: "takeWhile (\<lambda>c. c \<noteq> ch CHR ''T'') (s @ ch CHR ''T'' # t) = s"
    using assms by (induction s) auto
  have tw2: "takeWhile (\<lambda>c. c \<noteq> ch CHR ''T'') s = s"
    using assms by (induction s) auto
  have lit: "u ''0001'' = [48, 48, 48, 49]" "ch CHR ''T'' = 84"
    by (simp_all add: u_def ch_def)
  have n4: "length (u ''0001'') = 4"
    by (simp add: u_def)
  have sw: "startswith (s @ ch CHR ''T'' # t) (u ''0001'') = startswith s (u ''0001'')"
  proof (cases "length s \<ge> 4")
    case True
    then show ?thesis by (simp add: startswith_def n4)
  next
    case False
    have "take 4 (s @ ch CHR ''T'' # t) = s @ ch CHR ''T'' # take (3 - length s) t"
      using False by (simp add: take_Cons')
    then have m: "ch CHR ''T'' \<in> set (take 4 (s @ ch CHR ''T'' # t))" by simp
    have A: "take 4 (s @ ch CHR ''T'' # t) \<noteq> u ''0001''"
    proof
      assume e: "take 4 (s @ ch CHR ''T'' # t) = u ''0001''"
      from m have "ch CHR ''T'' \<in> set (u ''0001'')" by (simp only: e)
      then show False by (simp add: lit)
    qed
    have B: "take 4 s \<noteq> u ''0001''"
    proof
      assume "take 4 s = u ''0001''"
      then have "length (take 4 s) = 4" by (simp only: n4)
      with False show False by simp
    qed
    show ?thesis unfolding startswith_def n4 using A B by blast
  qed
  show ?thesis
  proof (cases "s = []")
    case True
    then show ?thesis by (simp add: parse_date_def startswith_def strptime_ymd_def lit)
  next
    case False
    then show ?thesis by (simp add: parse_date_def tw tw2 sw)
  qed
qed

subsection \<open>The range test\<close>

lemma is_in_range_ordinals:
  assumes "valid_datetime sd" "valid_datetime ed" "valid_date (dt_date t)"
  shows "is_in_range sd ed (Some t) \<longleftrightarrow>
           toordinal (dt_date sd) \<le> toordinal (dt_date t) \<and>
           toordinal (dt_date t) \<le> toordinal (dt_date ed)"
  using assms
  by (simp add: is_in_range_def valid_datetime_def date_le_iff_toordinal)

lemma date_in_range_bounds_time:
  "date_in_range rt (sd\<lparr>dt_us := a\<rparr>) (ed\<lparr>dt_us := b\<rparr>) r k = date_in_range rt sd ed r k"
  by (simp add: date_in_range_def is_in_range_def Let_def split: option.splits)

text \<open>
  C7. For range bounds that are datetimes and a row whose date under \<open>k\<close> parses: the row
  is in range exactly when the day of its date lies between the day of the start and the
  day of the end, both included. So a date on the day of either bound is in range, a date
  one day before the start or one day after the end is not. The time of day plays no part:
  the parsed date has none, whatever follows a \<^verbatim>\<open>T\<close> in the text is dropped before it is
  read, and changing the time of day of the bounds changes nothing.
\<close>

theorem C7_range_is_inclusive_by_day:
  assumes "valid_datetime sd" and "valid_datetime ed"
    and "parse_date rt (get r k) = Some t"
  shows "(date_in_range rt sd ed r k \<longleftrightarrow>
            toordinal (dt_date sd) \<le> toordinal (dt_date t) \<and>
            toordinal (dt_date t) \<le> toordinal (dt_date ed)) \<and>
         (toordinal (dt_date sd) \<le> toordinal (dt_date ed) \<and>
            (dt_date t = dt_date sd \<or> dt_date t = dt_date ed)
            \<longrightarrow> date_in_range rt sd ed r k) \<and>
         (toordinal (dt_date t) = toordinal (dt_date sd) - 1 \<or>
            toordinal (dt_date t) = toordinal (dt_date ed) + 1
            \<longrightarrow> \<not> date_in_range rt sd ed r k) \<and>
         dt_us t = 0 \<and>
         (\<forall>a b. date_in_range rt (sd\<lparr>dt_us := a\<rparr>) (ed\<lparr>dt_us := b\<rparr>) r k
                  = date_in_range rt sd ed r k) \<and>
         (\<forall>s x. ch CHR ''T'' \<notin> set s \<longrightarrow>
                  parse_date rt (PyStr (s @ ch CHR ''T'' # x)) = parse_date rt (PyStr s))"
proof -
  from assms(3) have v: "valid_date (dt_date t)" and us: "dt_us t = 0"
    using parse_date_valid by blast+
  have iff: "date_in_range rt sd ed r k \<longleftrightarrow>
      toordinal (dt_date sd) \<le> toordinal (dt_date t) \<and>
      toordinal (dt_date t) \<le> toordinal (dt_date ed)"
    using is_in_range_ordinals [OF assms(1,2) v]
    by (simp add: date_in_range_def assms(3))
  have eq: "toordinal (dt_date sd) \<le> toordinal (dt_date ed) \<and>
      (dt_date t = dt_date sd \<or> dt_date t = dt_date ed) \<longrightarrow> date_in_range rt sd ed r k"
    unfolding iff by auto
  have out: "toordinal (dt_date t) = toordinal (dt_date sd) - 1 \<or>
      toordinal (dt_date t) = toordinal (dt_date ed) + 1 \<longrightarrow> \<not> date_in_range rt sd ed r k"
    unfolding iff by auto
  show ?thesis
    using iff eq out us date_in_range_bounds_time parse_date_time_suffix by blast
qed

lemma nov_valid: "valid_datetime nov_start" "valid_datetime nov_end"
  by code_simp+

lemma edges_parse:
  "parse_date exact_runtime (get (edges 0) ''HB.sold_time'') = Some (mk_datetime 2025 11 1 0)"
  "parse_date exact_runtime (get (edges 1) ''HB.sold_time'') = Some (mk_datetime 2025 11 30 0)"
  "parse_date exact_runtime (get (edges 2) ''HB.sold_time'') = Some (mk_datetime 2025 10 31 0)"
  "parse_date exact_runtime (get (edges 3) ''HB.sold_time'') = Some (mk_datetime 2025 12 1 0)"
  by code_simp+

lemma edges_ordinals:
  "toordinal (dt_date nov_start) = 739556" "toordinal (dt_date nov_end) = 739585"
  "toordinal (dt_date (mk_datetime 2025 11 1 0)) = 739556"
  "toordinal (dt_date (mk_datetime 2025 11 30 0)) = 739585"
  "toordinal (dt_date (mk_datetime 2025 10 31 0)) = 739555"
  "toordinal (dt_date (mk_datetime 2025 12 1 0)) = 739586"
  by code_simp+

text \<open>
  With November 2025 as the range, a sale on 1 November and a sale on 30 November at
  23:59:59 are in range, a sale on 31 October and a sale on 1 December are not.
\<close>

theorem C7_range_is_inclusive_by_day_witness:
  "date_in_range exact_runtime nov_start nov_end (edges 0) ''HB.sold_time'' \<and>
   date_in_range exact_runtime nov_start nov_end (edges 1) ''HB.sold_time'' \<and>
   \<not> date_in_range exact_runtime nov_start nov_end (edges 2) ''HB.sold_time'' \<and>
   \<not> date_in_range exact_runtime nov_start nov_end (edges 3) ''HB.sold_time''"
  using C7_range_is_inclusive_by_day [OF nov_valid edges_parse(1)]
    C7_range_is_inclusive_by_day [OF nov_valid edges_parse(2)]
    C7_range_is_inclusive_by_day [OF nov_valid edges_parse(3)]
    C7_range_is_inclusive_by_day [OF nov_valid edges_parse(4)]
  by (simp add: edges_ordinals)

subsection \<open>Days to sell\<close>







text \<open>
  The values on this input: the two sales took \<open>- 10\<close> and 40 days, one is a quick flip,
  the average is 15, the fastest sale \<open>- 10\<close>.
\<close>

lemma backdated_values:
  "days_to_sell_loop exact_runtime backdated [0, 1] = [- 10, 40] \<and>
   map (report_of (analyze_homebox_rows exact_runtime dec_1 backdated [0, 1] nov_start nov_end))
     [''quick_flips'', ''avg_days_to_sell'', ''fastest_sale'', ''slowest_sale'']
   = [Some (RNum (NInt 1)), Some (RNum (NFloat (Fin 15))), Some (RNum (NInt (- 10))),
      Some (RNum (NInt 40))]"
  by code_simp

end
